theory Spec2Isabelle
  imports Main "HOL-Library.Word"
begin

unbundle bit_operations_syntax

section \<open>The Linux DVB tuner layer of \<open>modules/access/dtv/linux.c\<close>\<close>

text \<open>
  The development follows the build of the file in which \<open>USE_DMX\<close> is not defined
  (the file itself never defines it): the session then carries the directory descriptor,
  the device number and the table of \<open>MAX_PIDS\<close> per-PID filter descriptors.

  C \<open>int\<close>, \<open>unsigned\<close> and \<open>uint32_t\<close> are 32-bit words; a signed reading is
  \<open>sint\<close>. File descriptors and the return values of system calls are kept as
  \<open>int\<close>: the code only compares them with \<open>-1\<close> or \<open>0\<close>.
\<close>

type_synonym c_int = "32 word"
type_synonym uint32_t = "32 word"
type_synonym uint16_t = "16 word"
type_synonym uint8_t = "8 word"

subsection \<open>The kernel vocabulary\<close>

text \<open>
  Modelled from the spec: section 6 of the specification makes the kernel's ioctl
  vocabulary a fixed external contract, matched bit for bit; the header
  \<open>linux/dvb/frontend.h\<close> that declares it is not part of the repository. The
  enumerators below carry the values that header gives them (API version 5): an
  \<open>enum\<close> without initialisers counts from 0 in the order of declaration.
\<close>

text \<open>\<open>fe_modulation_t\<close>: QPSK, QAM_16, QAM_32, QAM_64, QAM_128, QAM_256, QAM_AUTO, VSB_8,
  VSB_16, PSK_8, APSK_16, APSK_32, DQPSK.\<close>

definition QPSK :: c_int where "QPSK = 0"
definition QAM_16 :: c_int where "QAM_16 = 1"
definition QAM_32 :: c_int where "QAM_32 = 2"
definition QAM_64 :: c_int where "QAM_64 = 3"
definition QAM_128 :: c_int where "QAM_128 = 4"
definition QAM_256 :: c_int where "QAM_256 = 5"
definition QAM_AUTO :: c_int where "QAM_AUTO = 6"
definition VSB_8 :: c_int where "VSB_8 = 7"
definition VSB_16 :: c_int where "VSB_16 = 8"
definition PSK_8 :: c_int where "PSK_8 = 9"
definition APSK_16 :: c_int where "APSK_16 = 10"
definition APSK_32 :: c_int where "APSK_32 = 11"
definition DQPSK :: c_int where "DQPSK = 12"

text \<open>\<open>fe_code_rate_t\<close>: FEC_NONE, FEC_1_2, FEC_2_3, FEC_3_4, FEC_4_5, FEC_5_6, FEC_6_7,
  FEC_7_8, FEC_8_9, FEC_AUTO, FEC_3_5, FEC_9_10.\<close>

definition FEC_1_2 :: c_int where "FEC_1_2 = 1"
definition FEC_2_3 :: c_int where "FEC_2_3 = 2"
definition FEC_3_4 :: c_int where "FEC_3_4 = 3"
definition FEC_4_5 :: c_int where "FEC_4_5 = 4"
definition FEC_5_6 :: c_int where "FEC_5_6 = 5"
definition FEC_6_7 :: c_int where "FEC_6_7 = 6"
definition FEC_7_8 :: c_int where "FEC_7_8 = 7"
definition FEC_8_9 :: c_int where "FEC_8_9 = 8"
definition FEC_AUTO :: c_int where "FEC_AUTO = 9"
definition FEC_9_10 :: c_int where "FEC_9_10 = 11"

text \<open>\<open>fe_transmit_mode_t\<close>: TRANSMISSION_MODE_2K, _8K, _AUTO, _4K.\<close>

definition TRANSMISSION_MODE_2K :: c_int where "TRANSMISSION_MODE_2K = 0"
definition TRANSMISSION_MODE_8K :: c_int where "TRANSMISSION_MODE_8K = 1"
definition TRANSMISSION_MODE_AUTO :: c_int where "TRANSMISSION_MODE_AUTO = 2"
definition TRANSMISSION_MODE_4K :: c_int where "TRANSMISSION_MODE_4K = 3"

text \<open>\<open>fe_guard_interval_t\<close>: GUARD_INTERVAL_1_32, _1_16, _1_8, _1_4, _AUTO.\<close>

definition GUARD_INTERVAL_1_32 :: c_int where "GUARD_INTERVAL_1_32 = 0"
definition GUARD_INTERVAL_1_16 :: c_int where "GUARD_INTERVAL_1_16 = 1"
definition GUARD_INTERVAL_1_8 :: c_int where "GUARD_INTERVAL_1_8 = 2"
definition GUARD_INTERVAL_1_4 :: c_int where "GUARD_INTERVAL_1_4 = 3"
definition GUARD_INTERVAL_AUTO :: c_int where "GUARD_INTERVAL_AUTO = 4"

text \<open>\<open>fe_hierarchy_t\<close>: HIERARCHY_NONE, HIERARCHY_1, HIERARCHY_2, HIERARCHY_4,
  HIERARCHY_AUTO.\<close>

definition HIERARCHY_NONE :: c_int where "HIERARCHY_NONE = 0"
definition HIERARCHY_1 :: c_int where "HIERARCHY_1 = 1"
definition HIERARCHY_2 :: c_int where "HIERARCHY_2 = 2"
definition HIERARCHY_4 :: c_int where "HIERARCHY_4 = 3"
definition HIERARCHY_AUTO :: c_int where "HIERARCHY_AUTO = 4"

text \<open>\<open>fe_pilot_t\<close>: PILOT_ON, PILOT_OFF, PILOT_AUTO; \<open>fe_rolloff_t\<close>: ROLLOFF_35,
  ROLLOFF_20, ROLLOFF_25, ROLLOFF_AUTO.\<close>

definition PILOT_ON :: c_int where "PILOT_ON = 0"
definition PILOT_OFF :: c_int where "PILOT_OFF = 1"
definition PILOT_AUTO :: c_int where "PILOT_AUTO = 2"

definition ROLLOFF_35 :: c_int where "ROLLOFF_35 = 0"
definition ROLLOFF_20 :: c_int where "ROLLOFF_20 = 1"
definition ROLLOFF_25 :: c_int where "ROLLOFF_25 = 2"
definition ROLLOFF_AUTO :: c_int where "ROLLOFF_AUTO = 3"

text \<open>\<open>fe_spectral_inversion_t\<close>: INVERSION_OFF, INVERSION_ON, INVERSION_AUTO.\<close>

definition INVERSION_OFF :: c_int where "INVERSION_OFF = 0"
definition INVERSION_ON :: c_int where "INVERSION_ON = 1"
definition INVERSION_AUTO :: c_int where "INVERSION_AUTO = 2"

text \<open>\<open>fe_sec_voltage_t\<close>: SEC_VOLTAGE_13, SEC_VOLTAGE_18, SEC_VOLTAGE_OFF;
  \<open>fe_sec_tone_mode_t\<close>: SEC_TONE_ON, SEC_TONE_OFF; \<open>fe_sec_mini_cmd_t\<close>: SEC_MINI_A,
  SEC_MINI_B.\<close>

definition SEC_VOLTAGE_13 :: c_int where "SEC_VOLTAGE_13 = 0"
definition SEC_VOLTAGE_18 :: c_int where "SEC_VOLTAGE_18 = 1"
definition SEC_VOLTAGE_OFF :: c_int where "SEC_VOLTAGE_OFF = 2"

definition SEC_TONE_ON :: c_int where "SEC_TONE_ON = 0"
definition SEC_TONE_OFF :: c_int where "SEC_TONE_OFF = 1"

definition SEC_MINI_A :: c_int where "SEC_MINI_A = 0"
definition SEC_MINI_B :: c_int where "SEC_MINI_B = 1"

text \<open>\<open>fe_delivery_system_t\<close>, the five systems the file names.\<close>

definition SYS_DVBC_ANNEX_AC :: c_int where "SYS_DVBC_ANNEX_AC = 1"
definition SYS_DVBC_ANNEX_B :: c_int where "SYS_DVBC_ANNEX_B = 2"
definition SYS_DVBT :: c_int where "SYS_DVBT = 3"
definition SYS_DVBS :: c_int where "SYS_DVBS = 5"
definition SYS_DVBS2 :: c_int where "SYS_DVBS2 = 6"
definition SYS_ATSC :: c_int where "SYS_ATSC = 11"

text \<open>
  The property commands (\<open>DTV_*\<close> macros of the same header) are only ever used as
  tags of a property, so they are kept by name.
\<close>

datatype dtv_cmd =
    DTV_TUNE | DTV_CLEAR | DTV_FREQUENCY | DTV_MODULATION | DTV_BANDWIDTH_HZ
  | DTV_INVERSION | DTV_SYMBOL_RATE | DTV_INNER_FEC | DTV_VOLTAGE | DTV_TONE
  | DTV_PILOT | DTV_ROLLOFF | DTV_DELIVERY_SYSTEM | DTV_CODE_RATE_HP | DTV_CODE_RATE_LP
  | DTV_GUARD_INTERVAL | DTV_TRANSMISSION_MODE | DTV_HIERARCHY

subsection \<open>The C library: \<open>strcmp\<close> and \<open>bsearch\<close>\<close>

text \<open>
  Modelled from the spec: \<open>strcmp\<close> and \<open>bsearch\<close> belong to the C library, not to the
  repository; the specification has the tables "looked up by binary search".
  \<open>strcmp\<close> compares byte by byte as \<open>unsigned char\<close> and only its sign is specified;
  a string that ends first is the smaller one. \<open>bsearch\<close> is the usual halving loop
  over \<open>base[0..n)\<close>: the comparison function receives the key and an element, a
  negative result continues in the lower half, a positive one in the upper half and
  zero returns the element; \<open>None\<close> is the null pointer.
\<close>

fun strcmp :: "string \<Rightarrow> string \<Rightarrow> int" where
  "strcmp [] [] = 0"
| "strcmp [] (b # bs) = - 1"
| "strcmp (a # as) [] = 1"
| "strcmp (a # as) (b # bs) =
     (if a = b then strcmp as bs
      else if (of_char a :: nat) < of_char b then - 1 else 1)"

function bsearch_loop :: "('k \<Rightarrow> 'e \<Rightarrow> int) \<Rightarrow> 'k \<Rightarrow> 'e list \<Rightarrow> nat \<Rightarrow> nat \<Rightarrow> 'e option" where
  "bsearch_loop cmp key base l u =
     (if l < u then
        (let idx = (l + u) div 2; c = cmp key (base ! idx) in
         if c < 0 then bsearch_loop cmp key base l idx
         else if c > 0 then bsearch_loop cmp key base (idx + 1) u
         else Some (base ! idx))
      else None)"
  by pat_completeness auto
termination
  by (relation "measure (\<lambda>(cmp, key, base, l, u). u - l)") auto

declare bsearch_loop.simps [simp del]

definition bsearch :: "'k \<Rightarrow> 'e list \<Rightarrow> nat \<Rightarrow> ('k \<Rightarrow> 'e \<Rightarrow> int) \<Rightarrow> 'e option" where
  "bsearch key base n cmp = bsearch_loop cmp key base 0 n"

text \<open>What \<open>bsearch\<close> asks of its array, for the keys of the array itself: under the
  comparison function, the key of each element compares below every later element and
  the key of each later element above it. For a table whose keys are far from the ends
  of the \<open>int\<close> range, or are strings, this is strictly ascending order of the keys.\<close>

definition bsearch_ordered :: "('k \<Rightarrow> 'e \<Rightarrow> int) \<Rightarrow> ('e \<Rightarrow> 'k) \<Rightarrow> 'e list \<Rightarrow> bool" where
  "bsearch_ordered cmp keyof base =
     sorted_wrt (\<lambda>a b. cmp (keyof a) b < 0 \<and> cmp (keyof b) a > 0) base"

subsection \<open>The parameter translators\<close>

text \<open>
  \<open>dvb_int_map_t\<close> and \<open>dvb_str_map_t\<close> are two-field structs, \<open>vlc\<close> then
  \<open>linux_\<close>; an entry is the pair \<open>(vlc, linux_)\<close>. \<open>icmp\<close> returns the C \<open>int\<close>
  difference of the key and the entry's \<open>vlc\<close> field, which wraps around at 32 bits.
  A \<open>const char *\<close> argument is a \<open>string option\<close>, \<open>None\<close> for \<open>NULL\<close>.
\<close>

type_synonym dvb_int_map_t = "c_int \<times> c_int"
type_synonym dvb_str_map_t = "string \<times> c_int"

definition icmp :: "c_int \<Rightarrow> dvb_int_map_t \<Rightarrow> int" where
  "icmp key entry = sint (key - fst entry)"

definition dvb_parse_int :: "c_int \<Rightarrow> dvb_int_map_t list \<Rightarrow> nat \<Rightarrow> c_int \<Rightarrow> c_int" where
  "dvb_parse_int i map_tab n def =
     (case bsearch i map_tab n icmp of Some p \<Rightarrow> snd p | None \<Rightarrow> def)"

definition scmp :: "string \<Rightarrow> dvb_str_map_t \<Rightarrow> int" where
  "scmp key entry = strcmp key (fst entry)"

definition dvb_parse_str :: "string option \<Rightarrow> dvb_str_map_t list \<Rightarrow> nat \<Rightarrow> c_int \<Rightarrow> c_int" where
  "dvb_parse_str str map_tab n def =
     (case str of
        None \<Rightarrow> def
      | Some s \<Rightarrow> (case bsearch s map_tab n scmp of Some p \<Rightarrow> snd p | None \<Rightarrow> def))"

definition mods :: "dvb_str_map_t list" where
  "mods =
     [(''128QAM'', QAM_128), (''16APSK'', APSK_16), (''16QAM'', QAM_16), (''16VSB'', VSB_16),
      (''256QAM'', QAM_256), (''32APSK'', APSK_32), (''32QAM'', QAM_32), (''64QAM'', QAM_64),
      (''8PSK'', PSK_8), (''8VSB'', VSB_8), (''DQPSK'', DQPSK), (''QAM'', QAM_AUTO),
      (''QPSK'', QPSK)]"

definition dvb_parse_modulation :: "string option \<Rightarrow> c_int \<Rightarrow> c_int" where
  "dvb_parse_modulation str def = dvb_parse_str str mods (length mods) def"

definition rates :: "dvb_str_map_t list" where
  "rates =
     [([], FEC_AUTO), (''1/2'', FEC_1_2), (''2/3'', FEC_2_3), (''3/4'', FEC_3_4),
      (''4/5'', FEC_4_5), (''5/6'', FEC_5_6), (''6/7'', FEC_6_7), (''7/8'', FEC_7_8),
      (''8/9'', FEC_8_9), (''9/10'', FEC_9_10)]"

definition dvb_parse_fec :: "string option \<Rightarrow> c_int" where
  "dvb_parse_fec str = dvb_parse_str str rates (length rates) FEC_AUTO"

text \<open>The polarisation is a \<open>char\<close>, converted to \<open>int\<close> for the lookup; the keys of
  the table are character codes. (Where \<open>char\<close> is signed, a byte above 127 converts
  to a negative key; no such key is in the table either way.)\<close>

definition polarization_tab :: "dvb_int_map_t list" where
  "polarization_tab =
     [(0, SEC_VOLTAGE_OFF), (of_char CHR ''H'', SEC_VOLTAGE_18),
      (of_char CHR ''L'', SEC_VOLTAGE_18), (of_char CHR ''R'', SEC_VOLTAGE_13),
      (of_char CHR ''V'', SEC_VOLTAGE_13)]"

definition dvb_parse_polarization :: "char \<Rightarrow> c_int" where
  "dvb_parse_polarization pol = dvb_parse_int (of_char pol) polarization_tab 5 SEC_VOLTAGE_OFF"

definition transmit_mode_tab :: "dvb_int_map_t list" where
  "transmit_mode_tab =
     [(- 1, TRANSMISSION_MODE_AUTO), (2, TRANSMISSION_MODE_2K), (4, TRANSMISSION_MODE_4K),
      (8, TRANSMISSION_MODE_8K)]"

definition dvb_parse_transmit_mode :: "c_int \<Rightarrow> c_int" where
  "dvb_parse_transmit_mode i =
     dvb_parse_int i transmit_mode_tab (length transmit_mode_tab) TRANSMISSION_MODE_AUTO"

definition guard_tab :: "dvb_str_map_t list" where
  "guard_tab =
     [([], GUARD_INTERVAL_AUTO), (''1/16'', GUARD_INTERVAL_1_16),
      (''1/32'', GUARD_INTERVAL_1_32), (''1/4'', GUARD_INTERVAL_1_4),
      (''1/8'', GUARD_INTERVAL_1_8)]"

definition dvb_parse_guard :: "string option \<Rightarrow> c_int" where
  "dvb_parse_guard str = dvb_parse_str str guard_tab (length guard_tab) GUARD_INTERVAL_AUTO"

text \<open>The initialisers of the hierarchy table are written in the source with the
  kernel enumerator first and the configuration number second.\<close>

definition hierarchy_tab :: "dvb_int_map_t list" where
  "hierarchy_tab =
     [(HIERARCHY_AUTO, - 1), (HIERARCHY_NONE, 0), (HIERARCHY_1, 1), (HIERARCHY_2, 2),
      (HIERARCHY_4, 4)]"

definition dvb_parse_hierarchy :: "c_int \<Rightarrow> c_int" where
  "dvb_parse_hierarchy i =
     dvb_parse_int i hierarchy_tab (length hierarchy_tab) HIERARCHY_AUTO"

subsection \<open>System calls, log messages and the trace of a call\<close>

text \<open>
  Every function below returns, next to its C result, the list of what it did in order:
  the system calls it made, the messages it logged and the times it slept. What the
  kernel answers is a parameter: \<open>sys_ret\<close> gives the return value of each system
  call, \<open>info_of\<close> the frontend description that \<open>FE_GET_INFO\<close> writes.
  \<open>Malloc\<close> stands for the allocation of the session record and answers 0 for a
  null pointer.
\<close>

datatype open_flags = O_RDONLY | O_RDWR
datatype dmx_input_t = DMX_IN_FRONTEND
datatype dmx_output_t = DMX_OUT_TS_TAP | DMX_OUT_TSDEMUX_TAP
datatype dmx_pes_type_t = DMX_PES_OTHER
datatype dmx_flags = DMX_IMMEDIATE_START

record dmx_pes_filter_params =
  pes_pid :: uint16_t
  pes_input :: dmx_input_t
  pes_output :: dmx_output_t
  pes_type :: dmx_pes_type_t
  pes_flags :: dmx_flags

record dvb_frontend_info =
  info_type :: uint32_t
  info_caps :: uint32_t

datatype syscall =
    Open_adapter uint8_t
      \<comment> \<open>\<open>open ("/dev/dvb/adapter<N>", O_SEARCH|O_DIRECTORY|O_CLOEXEC)\<close>\<close>
  | Openat int string uint8_t open_flags
      \<comment> \<open>\<open>openat (dirfd, "<type><dev>", flags|O_CLOEXEC)\<close>\<close>
  | Fcntl_nonblock int
      \<comment> \<open>\<open>fcntl (fd, F_SETFL, fcntl (fd, F_GETFL) | O_NONBLOCK)\<close>\<close>
  | Fcntl_dupfd_cloexec int
  | Close int
  | Malloc
  | DMX_SET_BUFFER_SIZE int nat
  | DMX_SET_PES_FILTER int dmx_pes_filter_params
  | FE_GET_INFO int
  | FE_ENABLE_HIGH_LNB_VOLTAGE int c_int
  | FE_SET_PROPERTY int "(dtv_cmd \<times> uint32_t) list"
  | FE_DISEQC_SEND_MASTER_CMD int "uint8_t list"
  | FE_DISEQC_SEND_BURST int c_int

datatype message =
    Cannot_access_adapter uint8_t
  | Cannot_access_demultiplexer
  | Cannot_expand_demultiplexing_buffer
  | Cannot_setup_TS_demultiplexer
  | Cannot_access_DVR
  | Cannot_access_frontend uint8_t uint8_t
  | Cannot_get_frontend_info
  | Using_frontend dvb_frontend_info
  | Conditional_access_module_not_available
  | Cannot_add_PID uint16_t
  | Setting_property dtv_cmd uint32_t
  | Cannot_set_frontend_tuning_parameters
  | Cannot_enable_high_LNB_voltage
  | No_known_band_for_frequency uint32_t
  | Selected_LNB uint32_t uint32_t
  | Cannot_send_DiSEqC_command
  | Cannot_send_Mini_DiSEqC_tone_burst

datatype errno_t = EMFILE

datatype event =
    Sys syscall
  | Msg_Err message
  | Msg_Warn message
  | Msg_Dbg message
  | Msleep nat
  | Set_errno errno_t

record kernel =
  sys_ret :: "syscall \<Rightarrow> int"
  info_of :: "int \<Rightarrow> dvb_frontend_info"

text \<open>The configuration variables that the file inherits from its object.\<close>

record dvb_config =
  var_dvb_adapter :: int
  var_dvb_device :: int
  var_dvb_budget_mode :: bool
  var_dvb_high_voltage :: bool
  var_dvb_tone :: int
  var_dvb_satno :: int

subsection \<open>The session\<close>

record pid_slot =
  fd :: int
  pid :: uint16_t

text \<open>The array \<open>pids[MAX_PIDS]\<close> is a function of the index; only the indices below
  \<open>MAX_PIDS\<close> are ever read or written.\<close>

record dvb_device =
  frontend :: int
  demux :: int
  dir :: int
  dev_id :: uint8_t
  pids :: "nat \<Rightarrow> pid_slot"
  ca :: int
  info :: dvb_frontend_info
  budget :: bool

definition MAX_PIDS :: nat where
  "MAX_PIDS = 256"

definition dvb_open_adapter :: "kernel \<Rightarrow> uint8_t \<Rightarrow> int \<times> event list" where
  "dvb_open_adapter os adapter = (sys_ret os (Open_adapter adapter), [Sys (Open_adapter adapter)])"

definition dvb_open_node ::
  "kernel \<Rightarrow> int \<Rightarrow> uint8_t \<Rightarrow> string \<Rightarrow> open_flags \<Rightarrow> int \<times> event list" where
  "dvb_open_node os dirfd dev type flags =
     (let nfd = sys_ret os (Openat dirfd type dev flags) in
      (nfd, Sys (Openat dirfd type dev flags) #
            (if nfd \<noteq> - 1 then [Sys (Fcntl_nonblock nfd)] else [])))"

definition dvb_close :: "dvb_device \<Rightarrow> event list" where
  "dvb_close d =
     (if \<not> budget d then
        Sys (Close (dir d)) #
        concat (map (\<lambda>i. if fd (pids d i) \<noteq> - 1 then [Sys (Close (fd (pids d i)))] else [])
                    [0 ..< MAX_PIDS])
      else []) @
     (if ca d \<noteq> - 1 then [Sys (Close (ca d))] else []) @
     (if frontend d \<noteq> - 1 then [Sys (Close (frontend d))] else []) @
     [Sys (Close (demux d))]"

text \<open>The assignment \<open>d->pids[i].pid = d->pids[i].fd = -1\<close> stores \<open>-1\<close> in the
  \<open>int\<close> field and its conversion to \<open>uint16_t\<close> in the \<open>pid\<close> field.\<close>

definition free_slot :: pid_slot where
  "free_slot = \<lparr>fd = - 1, pid = word_of_int (- 1)\<rparr>"

definition dvb_open_tune ::
  "kernel \<Rightarrow> int \<Rightarrow> uint8_t \<Rightarrow> uint8_t \<Rightarrow> bool \<Rightarrow> dvb_device \<Rightarrow> dvb_device option \<times> event list" where
  "dvb_open_tune os dirfd adapter device tune d =
     (if tune then
        (let (fe, ev1) = dvb_open_node os dirfd device ''frontend'' O_RDWR;
             d1 = d\<lparr>frontend := fe\<rparr>
         in if fe = - 1 then
              (None, ev1 @ [Msg_Err (Cannot_access_frontend device adapter), Sys (Close dirfd)]
                     @ dvb_close d1)
            else if sys_ret os (FE_GET_INFO fe) < 0 then
              (None, ev1 @ [Sys (FE_GET_INFO fe), Msg_Err Cannot_get_frontend_info,
                            Sys (Close dirfd)] @ dvb_close d1)
            else
              (let d2 = d1\<lparr>info := info_of os fe\<rparr>;
                   (cafd, ev2) = dvb_open_node os dirfd device ''ca'' O_RDWR;
                   d3 = d2\<lparr>ca := cafd\<rparr>
               in (Some d3,
                   ev1 @ [Sys (FE_GET_INFO fe), Msg_Dbg (Using_frontend (info d2))] @ ev2
                   @ (if cafd = - 1 then [Msg_Dbg Conditional_access_module_not_available]
                      else [])
                   @ [Sys (Close dirfd)])))
      else (Some d, [Sys (Close dirfd)]))"

text \<open>\<open>junk\<close> is the content of the record as \<open>malloc\<close> hands it out: the fields that
  \<open>dvb_open\<close> does not assign keep it.\<close>

definition dvb_open ::
  "kernel \<Rightarrow> dvb_config \<Rightarrow> dvb_device \<Rightarrow> bool \<Rightarrow> dvb_device option \<times> event list" where
  "dvb_open os cfg junk tune =
     (let adapter = (word_of_int (var_dvb_adapter cfg) :: uint8_t);
          device = (word_of_int (var_dvb_device cfg) :: uint8_t);
          (dirfd, ev0) = dvb_open_adapter os adapter
      in if dirfd = - 1 then (None, ev0 @ [Msg_Err (Cannot_access_adapter adapter)])
         else if sys_ret os Malloc = 0 then (None, ev0 @ [Sys Malloc, Sys (Close dirfd)])
         else
           (let d = junk\<lparr>frontend := - 1, ca := - 1, budget := var_dvb_budget_mode cfg\<rparr>;
                ev1 = ev0 @ [Sys Malloc]
            in if budget d then
                 (let (dmx, ev2) = dvb_open_node os dirfd device ''demux'' O_RDONLY;
                      d1 = d\<lparr>demux := dmx\<rparr>
                  in if dmx = - 1 then
                       (None, ev1 @ ev2 @ [Msg_Err Cannot_access_demultiplexer, Sys (Close dirfd)])
                     else
                       (let ev3 = ev1 @ ev2 @ [Sys (DMX_SET_BUFFER_SIZE dmx (2 ^ 20))]
                              @ (if sys_ret os (DMX_SET_BUFFER_SIZE dmx (2 ^ 20)) < 0
                                 then [Msg_Warn Cannot_expand_demultiplexing_buffer] else []);
                            param = \<lparr>pes_pid = (if budget d1 then 0x2000 else 0x000),
                                     pes_input = DMX_IN_FRONTEND,
                                     pes_output = DMX_OUT_TSDEMUX_TAP,
                                     pes_type = DMX_PES_OTHER,
                                     pes_flags = DMX_IMMEDIATE_START\<rparr>
                        in if sys_ret os (DMX_SET_PES_FILTER dmx param) < 0 then
                             (None, ev3 @ [Sys (DMX_SET_PES_FILTER dmx param),
                                           Msg_Err Cannot_setup_TS_demultiplexer,
                                           Sys (Close dirfd)] @ dvb_close d1)
                           else
                             (let (r, ev4) = dvb_open_tune os dirfd adapter device tune d1
                              in (r, ev3 @ [Sys (DMX_SET_PES_FILTER dmx param)] @ ev4))))
               else
                 (let d1 = d\<lparr>dir := sys_ret os (Fcntl_dupfd_cloexec dirfd), dev_id := device\<rparr>;
                      d2 = d1\<lparr>pids := fold (\<lambda>i t. t(i := free_slot)) [0 ..< MAX_PIDS] (pids d1)\<rparr>;
                      (dvr, ev2) = dvb_open_node os (dir d2) device ''dvr'' O_RDONLY;
                      d3 = d2\<lparr>demux := dvr\<rparr>;
                      ev3 = ev1 @ [Sys (Fcntl_dupfd_cloexec dirfd)] @ ev2
                  in if dvr = - 1 then
                       (None, ev3 @ [Msg_Err Cannot_access_DVR, Sys (Close dirfd)])
                     else
                       (let (r, ev4) = dvb_open_tune os dirfd adapter device tune d3
                        in (r, ev3 @ ev4)))))"

subsection \<open>The PID filters\<close>

function dvb_add_pid_loop ::
  "kernel \<Rightarrow> dvb_device \<Rightarrow> uint16_t \<Rightarrow> nat \<Rightarrow> int \<times> dvb_device \<times> event list" where
  "dvb_add_pid_loop os d p i =
     (if i < MAX_PIDS then
        (if pid (pids d i) = p then (0, d, [])
         else if fd (pids d i) \<noteq> - 1 then dvb_add_pid_loop os d p (i + 1)
         else
           (let (nfd, ev) = dvb_open_node os (dir d) (dev_id d) ''demux'' O_RDONLY in
            if nfd = - 1 then (- 1, d, ev @ [Msg_Err (Cannot_add_PID p)])
            else
              (let param = \<lparr>pes_pid = p, pes_input = DMX_IN_FRONTEND,
                            pes_output = DMX_OUT_TS_TAP, pes_type = DMX_PES_OTHER,
                            pes_flags = DMX_IMMEDIATE_START\<rparr>
               in if sys_ret os (DMX_SET_PES_FILTER nfd param) < 0 then
                    (- 1, d, ev @ [Sys (DMX_SET_PES_FILTER nfd param), Sys (Close nfd),
                                   Msg_Err (Cannot_add_PID p)])
                  else
                    (0, d\<lparr>pids := (pids d)(i := \<lparr>fd = nfd, pid = p\<rparr>)\<rparr>,
                     ev @ [Sys (DMX_SET_PES_FILTER nfd param)]))))
      else (- 1, d, [Set_errno EMFILE, Msg_Err (Cannot_add_PID p)]))"
  by pat_completeness auto
termination
  by (relation "measure (\<lambda>(os, d, p, i). MAX_PIDS - i)") auto

declare dvb_add_pid_loop.simps [simp del]

definition dvb_add_pid :: "kernel \<Rightarrow> dvb_device \<Rightarrow> uint16_t \<Rightarrow> int \<times> dvb_device \<times> event list" where
  "dvb_add_pid os d p = (if budget d then (0, d, []) else dvb_add_pid_loop os d p 0)"

function dvb_remove_pid_loop :: "dvb_device \<Rightarrow> uint16_t \<Rightarrow> nat \<Rightarrow> dvb_device \<times> event list" where
  "dvb_remove_pid_loop d p i =
     (if i < MAX_PIDS then
        (if pid (pids d i) = p then
           (d\<lparr>pids := (pids d)(i := free_slot)\<rparr>, [Sys (Close (fd (pids d i)))])
         else dvb_remove_pid_loop d p (i + 1))
      else (d, []))"
  by pat_completeness auto
termination
  by (relation "measure (\<lambda>(d, p, i). MAX_PIDS - i)") auto

declare dvb_remove_pid_loop.simps [simp del]

definition dvb_remove_pid :: "dvb_device \<Rightarrow> uint16_t \<Rightarrow> dvb_device \<times> event list" where
  "dvb_remove_pid d p = (if budget d then (d, []) else dvb_remove_pid_loop d p 0)"

subsection \<open>Property sets\<close>

text \<open>\<open>dvb_vset_props\<close> copies the \<open>n\<close> pairs of its variable argument list into a
  buffer, logging each, and submits the buffer in one \<open>FE_SET_PROPERTY\<close> call; the
  pairs are a list here. A value is read as \<open>uint32_t\<close>, whatever its C type was.\<close>

definition dvb_set_props :: "kernel \<Rightarrow> dvb_device \<Rightarrow> (dtv_cmd \<times> uint32_t) list \<Rightarrow> int \<times> event list" where
  "dvb_set_props os d props =
     (let ev = map (\<lambda>(c, v). Msg_Dbg (Setting_property c v)) props
               @ [Sys (FE_SET_PROPERTY (frontend d) props)]
      in if sys_ret os (FE_SET_PROPERTY (frontend d) props) < 0
         then (- 1, ev @ [Msg_Err Cannot_set_frontend_tuning_parameters])
         else (0, ev))"

definition dvb_set_prop :: "kernel \<Rightarrow> dvb_device \<Rightarrow> dtv_cmd \<Rightarrow> uint32_t \<Rightarrow> int \<times> event list" where
  "dvb_set_prop os d prop val = dvb_set_props os d [(prop, val)]"

definition dvb_set_inversion :: "kernel \<Rightarrow> dvb_device \<Rightarrow> c_int \<Rightarrow> int \<times> event list" where
  "dvb_set_inversion os d v =
     dvb_set_prop os d DTV_INVERSION
       (if v = 0 then INVERSION_OFF else if v = 1 then INVERSION_ON else INVERSION_AUTO)"

definition dvb_tune :: "kernel \<Rightarrow> dvb_device \<Rightarrow> int \<times> event list" where
  "dvb_tune os d = dvb_set_prop os d DTV_TUNE 0"

subsection \<open>DVB-C\<close>

definition dvb_set_dvbc ::
  "kernel \<Rightarrow> dvb_device \<Rightarrow> uint32_t \<Rightarrow> string option \<Rightarrow> uint32_t \<Rightarrow> string option
   \<Rightarrow> int \<times> event list" where
  "dvb_set_dvbc os d freq modstr srate fecstr =
     (let modul = dvb_parse_modulation modstr QAM_AUTO;
          fec = dvb_parse_fec fecstr
      in dvb_set_props os d
           [(DTV_CLEAR, 0), (DTV_DELIVERY_SYSTEM, SYS_DVBC_ANNEX_AC),
            (DTV_FREQUENCY, freq * 1000), (DTV_MODULATION, modul),
            (DTV_SYMBOL_RATE, srate), (DTV_INNER_FEC, fec)])"

subsection \<open>DVB-S: satellite equipment control\<close>

text \<open>The table of default oscillator frequencies, \<open>{min, max, low, high}\<close> in MHz,
  all \<open>uint16_t\<close>. The loop takes the first row whose range holds \<open>mhz\<close>; the products
  \<open>tab[i].low * 1000\<close> are computed in \<open>int\<close>. \<open>mhz\<close> is a \<open>uint_fast16_t\<close>, which the
  C libraries of Linux make at least 32 bits wide, so \<open>freq / 1000\<close> is not cut.\<close>

definition lnb_tab :: "(uint16_t \<times> uint16_t \<times> uint16_t \<times> uint16_t) list" where
  "lnb_tab =
     [(10700, 13250, 9750, 10600),
      (4500, 4800, 5950, 0),
      (3400, 4200, 5150, 0),
      (2500, 2700, 3650, 0),
      (950, 2150, 0, 0)]"

fun lnb_scan ::
  "(uint16_t \<times> uint16_t \<times> uint16_t \<times> uint16_t) list \<Rightarrow> uint32_t \<Rightarrow> (uint32_t \<times> uint32_t) option" where
  "lnb_scan [] mhz = None"
| "lnb_scan ((mn, mx, low, high) # rest) mhz =
     (if mhz \<ge> ucast mn \<and> mhz \<le> ucast mx
      then Some (ucast low * 1000, ucast high * 1000)
      else lnb_scan rest mhz)"

text \<open>The block \<open>if (!lowf) { ... }\<close>: the oscillator pair after it and what it logs.\<close>

definition lnb_oscillators ::
  "uint32_t \<Rightarrow> uint32_t \<Rightarrow> uint32_t \<Rightarrow> uint32_t \<times> uint32_t \<times> event list" where
  "lnb_oscillators freq lowf highf =
     (if lowf = 0 then
        (let mhz = freq div 1000 in
         case lnb_scan lnb_tab mhz of
           Some (l, h) \<Rightarrow> (l, h, [Msg_Dbg (Selected_LNB l h)])
         | None \<Rightarrow> (lowf, highf, [Msg_Err (No_known_band_for_frequency freq),
                                   Msg_Dbg (Selected_LNB lowf highf)]))
      else (lowf, highf, []))"

text \<open>The six bytes of the DiSEqC 1.0 command. The source assigns \<open>msg[0..5]\<close> and
  leaves the \<open>msg_len\<close> field of the struct as it is on the stack, so only the bytes
  are kept.\<close>

definition diseqc_msg :: "uint32_t \<Rightarrow> c_int \<Rightarrow> c_int \<Rightarrow> uint8_t list" where
  "diseqc_msg satno voltage tone =
     [0xE0, 0x10, 0x38,
      ucast (0xF0 OR push_bit 2 satno
                  OR push_bit 1 (if voltage = SEC_VOLTAGE_18 then 1 else 0)
                  OR (if tone = SEC_TONE_ON then 1 else 0) :: uint32_t),
      0, 0]"

datatype error = Assertion_failed

definition dvb_set_sec ::
  "kernel \<Rightarrow> dvb_config \<Rightarrow> dvb_device \<Rightarrow> uint32_t \<Rightarrow> char \<Rightarrow> uint32_t \<Rightarrow> uint32_t \<Rightarrow> uint32_t
   \<Rightarrow> (error + int) \<times> event list" where
  "dvb_set_sec os cfg d freq pol lowf highf switchf =
     (let val = (if var_dvb_high_voltage cfg then 1 else 0 :: c_int);
          ev0 = Sys (FE_ENABLE_HIGH_LNB_VOLTAGE (frontend d) val) #
                (if sys_ret os (FE_ENABLE_HIGH_LNB_VOLTAGE (frontend d) val) < 0 \<and> val \<noteq> 0
                 then [Msg_Err Cannot_enable_high_LNB_voltage] else []);
          (lowf1, highf1, ev1) = lnb_oscillators freq lowf highf;
          high = (highf1 \<noteq> 0 \<and> freq > switchf);
          freq1 = freq - (if high then highf1 else lowf1);
          freq2 = (if sint freq1 < 0 then freq1 * (- 1) else freq1)
      in if \<not> freq2 < 0x7fffffff then (Inl Assertion_failed, ev0 @ ev1)
         else
           (let tone = (if var_dvb_tone cfg = 0 then SEC_TONE_OFF
                        else if var_dvb_tone cfg = 1 then SEC_TONE_ON
                        else if high then SEC_TONE_ON else SEC_TONE_OFF);
                voltage = dvb_parse_polarization pol;
                (r1, ev2) = dvb_set_props os d [(DTV_TONE, SEC_TONE_OFF), (DTV_VOLTAGE, voltage)]
            in if r1 \<noteq> 0 then (Inr (- 1), ev0 @ ev1 @ ev2)
               else
                 (let satno = (word_of_int (var_dvb_satno cfg) :: uint32_t);
                      (r2, ev3) =
                        (if satno > 0 then
                           (let satno1 = (satno - 1) AND 3;
                                cmd = diseqc_msg satno1 voltage tone;
                                satno2 = satno1 AND 1;
                                burst = (if satno2 \<noteq> 0 then SEC_MINI_B else SEC_MINI_A)
                            in if sys_ret os (FE_DISEQC_SEND_MASTER_CMD (frontend d) cmd) < 0 then
                                 (- 1, [Msleep 15000,
                                        Sys (FE_DISEQC_SEND_MASTER_CMD (frontend d) cmd),
                                        Msg_Err Cannot_send_DiSEqC_command])
                               else if sys_ret os (FE_DISEQC_SEND_BURST (frontend d) burst) < 0 then
                                 (- 1, [Msleep 15000,
                                        Sys (FE_DISEQC_SEND_MASTER_CMD (frontend d) cmd),
                                        Msleep (54000 + 15000),
                                        Sys (FE_DISEQC_SEND_BURST (frontend d) burst),
                                        Msg_Err Cannot_send_Mini_DiSEqC_tone_burst])
                               else
                                 (0, [Msleep 15000,
                                      Sys (FE_DISEQC_SEND_MASTER_CMD (frontend d) cmd),
                                      Msleep (54000 + 15000),
                                      Sys (FE_DISEQC_SEND_BURST (frontend d) burst),
                                      Msleep 15000]))
                         else (0 :: int, []))
                  in if r2 \<noteq> 0 then (Inr (- 1), ev0 @ ev1 @ ev2 @ ev3)
                     else
                       (let (r3, ev4) = dvb_set_props os d [(DTV_FREQUENCY, freq2), (DTV_TONE, tone)]
                        in (Inr r3, ev0 @ ev1 @ ev2 @ ev3 @ ev4)))))"

definition dvb_set_dvbs ::
  "kernel \<Rightarrow> dvb_device \<Rightarrow> uint32_t \<Rightarrow> uint32_t \<Rightarrow> string option \<Rightarrow> int \<times> event list" where
  "dvb_set_dvbs os d freq srate fecstr =
     (let fec = dvb_parse_fec fecstr
      in dvb_set_props os d
           [(DTV_CLEAR, 0), (DTV_DELIVERY_SYSTEM, SYS_DVBS), (DTV_FREQUENCY, freq),
            (DTV_SYMBOL_RATE, srate), (DTV_INNER_FEC, fec)])"

text \<open>The two \<open>switch\<close> statements of \<open>dvb_set_dvbs2\<close>, with the constants the source
  names in each branch.\<close>

definition dvbs2_pilot :: "c_int \<Rightarrow> c_int" where
  "dvbs2_pilot pilot =
     (if pilot = 0 then PILOT_OFF else if pilot = 1 then PILOT_ON else PILOT_AUTO)"

definition dvbs2_rolloff :: "c_int \<Rightarrow> c_int" where
  "dvbs2_rolloff rolloff =
     (if rolloff = 20 then ROLLOFF_20
      else if rolloff = 25 then ROLLOFF_25
      else if rolloff = 35 then ROLLOFF_35
      else PILOT_AUTO)"

definition dvb_set_dvbs2 ::
  "kernel \<Rightarrow> dvb_device \<Rightarrow> uint32_t \<Rightarrow> string option \<Rightarrow> uint32_t \<Rightarrow> string option \<Rightarrow> c_int \<Rightarrow> c_int
   \<Rightarrow> int \<times> event list" where
  "dvb_set_dvbs2 os d freq modstr srate fecstr pilot rolloff =
     (let modul = dvb_parse_modulation modstr QPSK;
          fec = dvb_parse_fec fecstr;
          pilot1 = dvbs2_pilot pilot;
          rolloff1 = dvbs2_rolloff rolloff
      in dvb_set_props os d
           [(DTV_CLEAR, 0), (DTV_DELIVERY_SYSTEM, SYS_DVBS2), (DTV_FREQUENCY, freq),
            (DTV_MODULATION, modul), (DTV_SYMBOL_RATE, srate), (DTV_INNER_FEC, fec),
            (DTV_PILOT, pilot1), (DTV_ROLLOFF, rolloff1)])"

subsection \<open>DVB-T\<close>

definition dvb_set_dvbt ::
  "kernel \<Rightarrow> dvb_device \<Rightarrow> uint32_t \<Rightarrow> string option \<Rightarrow> string option \<Rightarrow> string option \<Rightarrow> uint32_t
   \<Rightarrow> c_int \<Rightarrow> string option \<Rightarrow> c_int \<Rightarrow> int \<times> event list" where
  "dvb_set_dvbt os d freq modstr fechstr feclstr bandwidth transmit_val guardstr hierarchy_val =
     (let modul = dvb_parse_modulation modstr QAM_AUTO;
          fec_hp = dvb_parse_fec fechstr;
          fec_lp = dvb_parse_fec feclstr;
          bandwidth1 = bandwidth * 1000000;
          transmit_mode = dvb_parse_transmit_mode transmit_val;
          guard_it = dvb_parse_guard guardstr;
          hierarchy = dvb_parse_hierarchy hierarchy_val
      in dvb_set_props os d
           [(DTV_CLEAR, 0), (DTV_DELIVERY_SYSTEM, SYS_DVBT), (DTV_FREQUENCY, freq * 1000),
            (DTV_MODULATION, modul), (DTV_CODE_RATE_HP, fec_hp), (DTV_CODE_RATE_LP, fec_lp),
            (DTV_BANDWIDTH_HZ, bandwidth1), (DTV_TRANSMISSION_MODE, transmit_mode),
            (DTV_GUARD_INTERVAL, guard_it), (DTV_HIERARCHY, hierarchy)])"

subsection \<open>ATSC\<close>

definition dvb_set_atsc :: "kernel \<Rightarrow> dvb_device \<Rightarrow> uint32_t \<Rightarrow> string option \<Rightarrow> int \<times> event list" where
  "dvb_set_atsc os d freq modstr =
     (let modul = dvb_parse_modulation modstr VSB_8
      in dvb_set_props os d
           [(DTV_CLEAR, 0), (DTV_DELIVERY_SYSTEM, SYS_ATSC), (DTV_FREQUENCY, freq * 1000),
            (DTV_MODULATION, modul)])"

definition dvb_set_cqam :: "kernel \<Rightarrow> dvb_device \<Rightarrow> uint32_t \<Rightarrow> string option \<Rightarrow> int \<times> event list" where
  "dvb_set_cqam os d freq modstr =
     (let modul = dvb_parse_modulation modstr QAM_AUTO
      in dvb_set_props os d
           [(DTV_CLEAR, 0), (DTV_DELIVERY_SYSTEM, SYS_DVBC_ANNEX_B), (DTV_FREQUENCY, freq * 1000),
            (DTV_MODULATION, modul)])"

subsection \<open>Reading a trace, and an example session\<close>

text \<open>The property sets submitted, the DiSEqC commands sent and the number of device
  nodes opened in a trace.\<close>

definition submitted :: "event list \<Rightarrow> (dtv_cmd \<times> uint32_t) list list" where
  "submitted ev =
     concat (map (\<lambda>e. case e of Sys (FE_SET_PROPERTY f props) \<Rightarrow> [props] | _ \<Rightarrow> []) ev)"

definition master_cmds :: "event list \<Rightarrow> uint8_t list list" where
  "master_cmds ev =
     concat (map (\<lambda>e. case e of Sys (FE_DISEQC_SEND_MASTER_CMD f m) \<Rightarrow> [m] | _ \<Rightarrow> []) ev)"

definition opens :: "event list \<Rightarrow> nat" where
  "opens ev = length (filter (\<lambda>e. case e of Sys (Openat f t n fl) \<Rightarrow> True | _ \<Rightarrow> False) ev)"

text \<open>A kernel in which every call succeeds, a configuration without budget mode, with
  the tone forced on and satellite number 2, and the session that \<open>dvb_open\<close> builds
  from them.\<close>

definition example_kernel :: kernel where
  "example_kernel =
     \<lparr>sys_ret = (\<lambda>s. case s of
                       Open_adapter a \<Rightarrow> 3
                     | Openat f t n fl \<Rightarrow>
                         (if t = ''dvr'' then 5 else if t = ''frontend'' then 6
                          else if t = ''ca'' then 7 else 8)
                     | Fcntl_dupfd_cloexec f \<Rightarrow> 4
                     | Malloc \<Rightarrow> 1
                     | _ \<Rightarrow> 0),
      info_of = (\<lambda>f. \<lparr>info_type = 0, info_caps = 0\<rparr>)\<rparr>"

definition example_config :: dvb_config where
  "example_config = \<lparr>var_dvb_adapter = 0, var_dvb_device = 0, var_dvb_budget_mode = False,
                      var_dvb_high_voltage = False, var_dvb_tone = 1, var_dvb_satno = 2\<rparr>"

definition example_junk :: dvb_device where
  "example_junk = \<lparr>frontend = 0, demux = 0, dir = 0, dev_id = 0, pids = (\<lambda>i. \<lparr>fd = 0, pid = 0\<rparr>),
                    ca = 0, info = \<lparr>info_type = 0, info_caps = 0\<rparr>, budget = True\<rparr>"

definition example_device :: dvb_device where
  "example_device =
     \<lparr>frontend = 6, demux = 5, dir = 4, dev_id = 0,
      pids = (\<lambda>i. if i < MAX_PIDS then free_slot else \<lparr>fd = 0, pid = 0\<rparr>),
      ca = 7, info = \<lparr>info_type = 0, info_caps = 0\<rparr>, budget = False\<rparr>"

text \<open>The example session after PID 0 has been added, a session whose table is full of
  other PIDs, and a kernel in which every call fails.\<close>

definition example_device_pat :: dvb_device where
  "example_device_pat = example_device\<lparr>pids := (pids example_device)(0 := \<lparr>fd = 8, pid = 0\<rparr>)\<rparr>"

definition example_device_full :: dvb_device where
  "example_device_full = example_device\<lparr>pids := (\<lambda>i. \<lparr>fd = 9, pid = 1\<rparr>)\<rparr>"

definition failing_kernel :: kernel where
  "failing_kernel = \<lparr>sys_ret = (\<lambda>s. - 1), info_of = (\<lambda>f. \<lparr>info_type = 0, info_caps = 0\<rparr>)\<rparr>"

section \<open>Properties\<close>

lemmas fe_enum_defs =
  QPSK_def QAM_16_def QAM_32_def QAM_64_def QAM_128_def QAM_256_def QAM_AUTO_def VSB_8_def
  VSB_16_def PSK_8_def APSK_16_def APSK_32_def DQPSK_def
  FEC_1_2_def FEC_2_3_def FEC_3_4_def FEC_4_5_def FEC_5_6_def FEC_6_7_def FEC_7_8_def
  FEC_8_9_def FEC_AUTO_def FEC_9_10_def
  TRANSMISSION_MODE_2K_def TRANSMISSION_MODE_8K_def TRANSMISSION_MODE_AUTO_def
  TRANSMISSION_MODE_4K_def
  GUARD_INTERVAL_1_32_def GUARD_INTERVAL_1_16_def GUARD_INTERVAL_1_8_def
  GUARD_INTERVAL_1_4_def GUARD_INTERVAL_AUTO_def
  HIERARCHY_NONE_def HIERARCHY_1_def HIERARCHY_2_def HIERARCHY_4_def HIERARCHY_AUTO_def
  PILOT_ON_def PILOT_OFF_def PILOT_AUTO_def
  ROLLOFF_35_def ROLLOFF_20_def ROLLOFF_25_def ROLLOFF_AUTO_def
  INVERSION_OFF_def INVERSION_ON_def INVERSION_AUTO_def
  SEC_VOLTAGE_13_def SEC_VOLTAGE_18_def SEC_VOLTAGE_OFF_def
  SEC_TONE_ON_def SEC_TONE_OFF_def SEC_MINI_A_def SEC_MINI_B_def
  SYS_DVBC_ANNEX_AC_def SYS_DVBC_ANNEX_B_def SYS_DVBT_def SYS_DVBS_def SYS_DVBS2_def
  SYS_ATSC_def

subsection \<open>Binary search\<close>

lemma bsearch_loop_sound:
  "bsearch_loop cmp key base l u = Some e \<Longrightarrow> u \<le> length base \<Longrightarrow> e \<in> set base \<and> cmp key e = 0"
proof (induction cmp key base l u rule: bsearch_loop.induct)
  case (1 cmp key base l u)
  show ?case
  proof (cases "l < u")
    case False
    with "1.prems" show ?thesis by (simp add: bsearch_loop.simps)
  next
    case True
    define idx where "idx = (l + u) div 2"
    have idx: "idx < u" "l \<le> idx" using True by (simp_all add: idx_def)
    consider (lt) "cmp key (base ! idx) < 0" | (gt) "\<not> cmp key (base ! idx) < 0" "cmp key (base ! idx) > 0"
      | (eq) "cmp key (base ! idx) = 0" by linarith
    then show ?thesis
    proof cases
      case lt
      with True "1.prems" have "bsearch_loop cmp key base l idx = Some e"
        by (subst (asm) bsearch_loop.simps) (simp add: idx_def Let_def)
      with "1.IH"(1)[OF True idx_def refl lt] idx "1.prems"(2) show ?thesis by simp
    next
      case gt
      with True "1.prems" have "bsearch_loop cmp key base (idx + 1) u = Some e"
        by (subst (asm) bsearch_loop.simps) (simp add: idx_def Let_def)
      with "1.IH"(2)[OF True idx_def refl gt] "1.prems"(2) show ?thesis by simp
    next
      case eq
      with True "1.prems" have "e = base ! idx"
        by (subst (asm) bsearch_loop.simps) (simp add: idx_def Let_def)
      with eq idx "1.prems"(2) show ?thesis by simp
    qed
  qed
qed

lemma bsearch_loop_complete:
  assumes ord: "bsearch_ordered cmp keyof base"
    and zero: "cmp (keyof (base ! p)) (base ! p) = 0"
  shows "l \<le> p \<Longrightarrow> p < u \<Longrightarrow> u \<le> length base \<Longrightarrow>
         bsearch_loop cmp (keyof (base ! p)) base l u = Some (base ! p)"
proof (induction "u - l" arbitrary: l u rule: less_induct)
  case less
  define idx where "idx = (l + u) div 2"
  have lu: "l < u" using less.prems by simp
  have idx: "idx < u" "l \<le> idx" using lu by (simp_all add: idx_def)
  from ord have pair: "\<And>i j. i < j \<Longrightarrow> j < length base \<Longrightarrow>
      cmp (keyof (base ! i)) (base ! j) < 0 \<and> cmp (keyof (base ! j)) (base ! i) > 0"
    by (simp add: bsearch_ordered_def sorted_wrt_iff_nth_less)
  consider (left) "p < idx" | (right) "idx < p" | (hit) "idx = p" by linarith
  then show ?case
  proof cases
    case left
    have c: "cmp (keyof (base ! p)) (base ! idx) < 0"
      using pair[of p idx] left idx less.prems by simp
    have "bsearch_loop cmp (keyof (base ! p)) base l idx = Some (base ! p)"
      using less.hyps[of idx l] less.prems left idx by simp
    with lu c show ?thesis
      by (subst bsearch_loop.simps) (simp add: idx_def Let_def)
  next
    case right
    have c: "cmp (keyof (base ! p)) (base ! idx) > 0"
      using pair[of idx p] right less.prems by simp
    have "bsearch_loop cmp (keyof (base ! p)) base (idx + 1) u = Some (base ! p)"
      using less.hyps[of u "idx + 1"] less.prems right idx by simp
    with lu c show ?thesis
      by (subst bsearch_loop.simps) (simp add: idx_def Let_def)
  next
    case hit
    with lu zero show ?thesis
      by (subst bsearch_loop.simps) (simp add: idx_def Let_def)
  qed
qed

lemma bsearch_ordered_distinct:
  assumes ord: "bsearch_ordered cmp keyof base"
    and zero: "\<And>e. cmp (keyof e) e = 0"
  shows "distinct (map keyof base)"
proof -
  have "sorted_wrt (\<lambda>a b. keyof a \<noteq> keyof b) base"
  proof (rule sorted_wrt_mono_rel[OF _ ord[unfolded bsearch_ordered_def]])
    fix a b assume "cmp (keyof a) b < 0 \<and> 0 < cmp (keyof b) a"
    then show "keyof a \<noteq> keyof b" using zero[of b] by auto
  qed
  then show ?thesis
    by (induction base) (auto simp: )
qed

lemma bsearch_map_of:
  fixes base :: "('k \<times> 'v) list"
  assumes ord: "bsearch_ordered cmp fst base"
    and zero: "\<And>k e. cmp k e = 0 \<longleftrightarrow> k = fst e"
  shows "map_option snd (bsearch key base (length base) cmp) = map_of base key"
proof (cases "key \<in> fst ` set base")
  case False
  have "bsearch key base (length base) cmp = None"
  proof (rule ccontr)
    assume "bsearch key base (length base) cmp \<noteq> None"
    then obtain e where "bsearch_loop cmp key base 0 (length base) = Some e"
      by (auto simp: bsearch_def)
    from bsearch_loop_sound[OF this] have "e \<in> set base" "cmp key e = 0" by simp_all
    with zero False show False by (metis imageI)
  qed
  moreover from False have "map_of base key = None" by (simp add: map_of_eq_None_iff)
  ultimately show ?thesis by simp
next
  case True
  then obtain p where p: "p < length base" "fst (base ! p) = key"
    by (auto simp: in_set_conv_nth)
  have "bsearch_loop cmp (fst (base ! p)) base 0 (length base) = Some (base ! p)"
    by (rule bsearch_loop_complete[OF ord]) (use p zero in simp_all)
  with p have b: "bsearch key base (length base) cmp = Some (base ! p)"
    by (simp add: bsearch_def)
  have d: "distinct (map fst base)"
    by (rule bsearch_ordered_distinct[OF ord]) (simp add: zero)
  have "map_of base (fst (base ! p)) = Some (snd (base ! p))"
    using d p(1) by (intro map_of_is_SomeI) (auto simp: )
  with b p show ?thesis by simp
qed

lemma bsearch_absent:
  assumes "\<And>e. e \<in> set base \<Longrightarrow> cmp key e \<noteq> 0" "n \<le> length base"
  shows "bsearch key base n cmp = None"
proof (rule ccontr)
  assume "bsearch key base n cmp \<noteq> None"
  then obtain e where "bsearch_loop cmp key base 0 n = Some e"
    by (auto simp: bsearch_def)
  from bsearch_loop_sound[OF this assms(2)] assms(1) show False by blast
qed

lemma icmp_zero: "icmp k e = 0 \<longleftrightarrow> k = fst e"
proof -
  have "sint (k - fst e) = 0 \<longleftrightarrow> k - fst e = 0"
    by (simp add: signed_eq_0_iff)
  then show ?thesis by (simp add: icmp_def)
qed

lemma strcmp_zero: "strcmp a b = 0 \<longleftrightarrow> a = b"
  by (induction a b rule: strcmp.induct) auto

lemma scmp_zero: "scmp k e = 0 \<longleftrightarrow> k = fst e"
  by (simp add: scmp_def strcmp_zero)

text \<open>For strings, and for integer keys far from the ends of the \<open>int\<close> range, the
  order \<open>bsearch\<close> asks for is strictly ascending order of the keys.\<close>

lemma strcmp_antisym: "strcmp a b < 0 \<longleftrightarrow> strcmp b a > 0"
  by (induction a b rule: strcmp.induct) auto

lemma scmp_ordered_sorted:
  assumes "sorted_wrt (\<lambda>a b. strcmp (fst a) (fst b) < 0) smap"
  shows "bsearch_ordered scmp fst smap"
  unfolding bsearch_ordered_def
  by (rule sorted_wrt_mono_rel[OF _ assms]) (simp add: scmp_def strcmp_antisym)

lemma icmp_small:
  assumes "- (2 ^ 30) \<le> sint a" "sint a < 2 ^ 30" "- (2 ^ 30) \<le> sint b" "sint b < 2 ^ 30"
  shows "sint (a - b :: c_int) = sint a - sint b"
proof -
  have "sint (a - b) = signed_take_bit 31 (sint a - sint b)"
    by (simp add: sint_word_ariths)
  also have "\<dots> = sint a - sint b"
    using assms by (intro signed_take_bit_int_eq_self) simp_all
  finally show ?thesis .
qed

lemma icmp_ordered_sorted:
  assumes "sorted_wrt (\<lambda>a b. sint (fst a) < sint (fst b)) imap"
    and "\<forall>e \<in> set imap. - (2 ^ 30) \<le> sint (fst e) \<and> sint (fst e) < 2 ^ 30"
  shows "bsearch_ordered icmp fst imap"
proof -
  have "sorted_wrt (\<lambda>a b. icmp (fst a) b < 0 \<and> icmp (fst b) a > 0) imap"
  proof (rule sorted_wrt_mono_rel[OF _ assms(1)])
    fix a b assume "a \<in> set imap" "b \<in> set imap" "sint (fst a) < sint (fst b)"
    with assms(2) show "icmp (fst a) b < 0 \<and> icmp (fst b) a > 0"
      by (simp add: icmp_def icmp_small)
  qed
  then show ?thesis by (simp add: bsearch_ordered_def)
qed

subsection \<open>The tables of the file under their comparison functions\<close>

lemma mods_ordered: "bsearch_ordered scmp fst mods"
  by (simp add: bsearch_ordered_def mods_def scmp_def)

lemma rates_ordered: "bsearch_ordered scmp fst rates"
  by (simp add: bsearch_ordered_def rates_def scmp_def)

lemma guard_tab_ordered: "bsearch_ordered scmp fst guard_tab"
  by (simp add: bsearch_ordered_def guard_tab_def scmp_def)

lemma transmit_mode_tab_ordered: "bsearch_ordered icmp fst transmit_mode_tab"
  by (simp add: bsearch_ordered_def transmit_mode_tab_def icmp_def)

lemma polarization_tab_ordered: "bsearch_ordered icmp fst polarization_tab"
  by (simp add: bsearch_ordered_def polarization_tab_def icmp_def)

lemma hierarchy_tab_unordered: "\<not> bsearch_ordered icmp fst hierarchy_tab"
  by (simp add: bsearch_ordered_def hierarchy_tab_def icmp_def HIERARCHY_AUTO_def HIERARCHY_NONE_def)

lemma dvb_parse_int_map_of:
  assumes "bsearch_ordered icmp fst imap"
  shows "dvb_parse_int i imap (length imap) def = (case map_of imap i of Some v \<Rightarrow> v | None \<Rightarrow> def)"
proof -
  have "map_option snd (bsearch i imap (length imap) icmp) = map_of imap i"
    by (rule bsearch_map_of[OF assms]) (rule icmp_zero)
  then show ?thesis
    unfolding dvb_parse_int_def
    by (cases "bsearch i imap (length imap) icmp") (simp_all add: eq_commute[of "Some _"] del: map_option_eq_Some)
qed

lemma dvb_parse_str_map_of:
  assumes "bsearch_ordered scmp fst smap"
  shows "dvb_parse_str (Some s) smap (length smap) def = (case map_of smap s of Some v \<Rightarrow> v | None \<Rightarrow> def)"
proof -
  have "map_option snd (bsearch s smap (length smap) scmp) = map_of smap s"
    by (rule bsearch_map_of[OF assms]) (rule scmp_zero)
  then show ?thesis
    unfolding dvb_parse_str_def
    by (cases "bsearch s smap (length smap) scmp") (simp_all add: eq_commute[of "Some _"] del: map_option_eq_Some)
qed

lemma dvb_parse_int_absent:
  assumes "map_of imap i = None"
  shows "dvb_parse_int i imap (length imap) def = def"
proof -
  from assms have "\<And>e. e \<in> set imap \<Longrightarrow> icmp i e \<noteq> 0"
    by (auto simp: icmp_zero map_of_eq_None_iff)
  then have "bsearch i imap (length imap) icmp = None"
    by (intro bsearch_absent) simp_all
  then show ?thesis
    by (simp add: dvb_parse_int_def)
qed

text \<open>
  C9 (amended): the translators are total functions and never signal an error. A key that
  is absent yields the caller's default, whatever the order of the table, and so does a
  \<open>NULL\<close> string. A key that is present yields the value the table maps it to when the
  table is in the order \<open>bsearch\<close> asks for under the comparison function of the lookup;
  the modulation, FEC, guard interval, transmission mode and polarisation tables are in
  that order.
\<close>

theorem dvb_parse_total:
  "(bsearch_ordered icmp fst imap \<longrightarrow>
      dvb_parse_int i imap (length imap) def = (case map_of imap i of Some v \<Rightarrow> v | None \<Rightarrow> def))
   \<and> (map_of imap i = None \<longrightarrow> dvb_parse_int i imap (length imap) def = def)
   \<and> (bsearch_ordered scmp fst smap \<longrightarrow>
      dvb_parse_str (Some s) smap (length smap) sdef
        = (case map_of smap s of Some v \<Rightarrow> v | None \<Rightarrow> sdef))
   \<and> (map_of smap s = None \<longrightarrow> dvb_parse_str (Some s) smap (length smap) sdef = sdef)
   \<and> dvb_parse_str None smap n sdef = sdef
   \<and> bsearch_ordered scmp fst mods \<and> bsearch_ordered scmp fst rates
   \<and> bsearch_ordered scmp fst guard_tab \<and> bsearch_ordered icmp fst transmit_mode_tab
   \<and> bsearch_ordered icmp fst polarization_tab"
proof (intro conjI impI)
  assume "map_of imap i = None"
  then have "\<And>e. e \<in> set imap \<Longrightarrow> icmp i e \<noteq> 0"
    by (auto simp: icmp_zero map_of_eq_None_iff)
  then have "bsearch i imap (length imap) icmp = None"
    by (intro bsearch_absent) simp_all
  then show "dvb_parse_int i imap (length imap) def = def"
    by (simp add: dvb_parse_int_def)
next
  assume "map_of smap s = None"
  then have "\<And>e. e \<in> set smap \<Longrightarrow> scmp s e \<noteq> 0"
    by (auto simp: scmp_zero map_of_eq_None_iff)
  then have "bsearch s smap (length smap) scmp = None"
    by (intro bsearch_absent) simp_all
  then show "dvb_parse_str (Some s) smap (length smap) sdef = sdef"
    by (simp add: dvb_parse_str_def)
next
  assume "bsearch_ordered icmp fst imap"
  then show "dvb_parse_int i imap (length imap) def
      = (case map_of imap i of Some v \<Rightarrow> v | None \<Rightarrow> def)"
    by (rule dvb_parse_int_map_of)
next
  assume "bsearch_ordered scmp fst smap"
  then show "dvb_parse_str (Some s) smap (length smap) sdef
      = (case map_of smap s of Some v \<Rightarrow> v | None \<Rightarrow> sdef)"
    by (rule dvb_parse_str_map_of)
next
  show "dvb_parse_str None smap n sdef = sdef"
    by (simp add: dvb_parse_str_def)
next
  show "bsearch_ordered scmp fst mods" by (rule mods_ordered)
  show "bsearch_ordered scmp fst rates" by (rule rates_ordered)
  show "bsearch_ordered scmp fst guard_tab" by (rule guard_tab_ordered)
  show "bsearch_ordered icmp fst transmit_mode_tab" by (rule transmit_mode_tab_ordered)
  show "bsearch_ordered icmp fst polarization_tab" by (rule polarization_tab_ordered)
qed

theorem dvb_parse_total_witness:
  "bsearch_ordered icmp fst transmit_mode_tab
   \<and> dvb_parse_int 4 transmit_mode_tab (length transmit_mode_tab) TRANSMISSION_MODE_AUTO
       = TRANSMISSION_MODE_4K
   \<and> map_of transmit_mode_tab 5 = None
   \<and> dvb_parse_int 5 transmit_mode_tab (length transmit_mode_tab) TRANSMISSION_MODE_AUTO
       = TRANSMISSION_MODE_AUTO
   \<and> bsearch_ordered scmp fst mods
   \<and> dvb_parse_str (Some ''8VSB'') mods (length mods) QAM_AUTO = VSB_8
   \<and> map_of mods ''8vsb'' = None
   \<and> dvb_parse_str (Some ''8vsb'') mods (length mods) QAM_AUTO = QAM_AUTO
   \<and> dvb_parse_str None mods (length mods) QAM_AUTO = QAM_AUTO"
proof -
  have t: "bsearch_ordered icmp fst transmit_mode_tab" by (rule transmit_mode_tab_ordered)
  have m: "bsearch_ordered scmp fst mods" by (rule mods_ordered)
  have a: "map_of transmit_mode_tab 5 = None" by (simp add: transmit_mode_tab_def)
  have b: "map_of mods ''8vsb'' = None" by (simp add: mods_def)
  have c: "map_of transmit_mode_tab 4 = Some TRANSMISSION_MODE_4K" by (simp add: transmit_mode_tab_def)
  have d: "map_of mods ''8VSB'' = Some VSB_8" by (simp add: mods_def)
  from dvb_parse_total[of transmit_mode_tab 4 TRANSMISSION_MODE_AUTO mods "''8VSB''" QAM_AUTO "length mods"]
       dvb_parse_total[of transmit_mode_tab 5 TRANSMISSION_MODE_AUTO mods "''8vsb''" QAM_AUTO "length mods"]
       t m a b c d
  show ?thesis by simp
qed

theorem dvb_parse_present_counterexample:
  "map_of hierarchy_tab 4 = Some (- 1)
   \<and> dvb_parse_int 4 hierarchy_tab (length hierarchy_tab) HIERARCHY_AUTO = HIERARCHY_AUTO
   \<and> HIERARCHY_AUTO \<noteq> (- 1 :: c_int)
   \<and> map_of [(- 2147483648 :: c_int, 7 :: c_int), (1, 8), (5, 9)] (- 2147483648) = Some 7
   \<and> dvb_parse_int (- 2147483648) [(- 2147483648, 7), (1, 8), (5, 9)] 3 0 = 0"
  by (simp add: dvb_parse_int_def bsearch_def hierarchy_tab_def icmp_def fe_enum_defs
      bsearch_loop.simps)

subsection \<open>The hierarchy table\<close>

lemma dvb_parse_hierarchy_cases:
  "dvb_parse_hierarchy 0 = 0" "dvb_parse_hierarchy 1 = 1" "dvb_parse_hierarchy 2 = 2"
  "dvb_parse_hierarchy 3 = 4" "dvb_parse_hierarchy 4 = 4"
  by (simp_all add: dvb_parse_hierarchy_def dvb_parse_int_def bsearch_def hierarchy_tab_def
      icmp_def fe_enum_defs bsearch_loop.simps)

text \<open>
  C5: the specification has \<open>dvb_parse_hierarchy\<close> return \<open>HIERARCHY_4\<close> for the
  configuration value 4. The table is written with its two columns exchanged, so it is keyed by the
  kernel enumerators and is not in ascending order: the value 4 is not found (and the one
  entry with key 4 carries \<open>-1\<close>), and the function returns the default \<open>HIERARCHY_AUTO\<close>.
  The last conjunct is what the function returns on every input: 0, 1 and 2 are
  translated, everything else, 4 included, becomes \<open>HIERARCHY_AUTO\<close>.
\<close>

theorem dvb_parse_hierarchy_4:
  "dvb_parse_hierarchy 4 = HIERARCHY_AUTO
   \<and> dvb_parse_hierarchy 4 \<noteq> HIERARCHY_4
   \<and> map_of hierarchy_tab 4 = Some (- 1)
   \<and> \<not> bsearch_ordered icmp fst hierarchy_tab
   \<and> dvb_parse_hierarchy i =
       (if i = 0 then HIERARCHY_NONE else if i = 1 then HIERARCHY_1
        else if i = 2 then HIERARCHY_2 else HIERARCHY_AUTO)"
proof -
  have other: "dvb_parse_hierarchy i = HIERARCHY_AUTO"
    if "i \<noteq> 0" "i \<noteq> 1" "i \<noteq> 2" "i \<noteq> 3" "i \<noteq> 4"
  proof -
    from that have "map_of hierarchy_tab i = None"
      by (simp add: hierarchy_tab_def fe_enum_defs)
    then show ?thesis
      unfolding dvb_parse_hierarchy_def by (rule dvb_parse_int_absent)
  qed
  have all: "dvb_parse_hierarchy i =
       (if i = 0 then HIERARCHY_NONE else if i = 1 then HIERARCHY_1
        else if i = 2 then HIERARCHY_2 else HIERARCHY_AUTO)"
    using other dvb_parse_hierarchy_cases
    by (auto simp: fe_enum_defs)
  have "map_of hierarchy_tab 4 = Some (- 1)"
    by (simp add: hierarchy_tab_def fe_enum_defs)
  with all hierarchy_tab_unordered dvb_parse_hierarchy_cases(5) show ?thesis
    by (simp add: fe_enum_defs)
qed

subsection \<open>Traces\<close>

lemma submitted_simps [simp]:
  "submitted [] = []"
  "submitted (Sys (FE_SET_PROPERTY f props) # ev) = props # submitted ev"
  "submitted (Msg_Dbg m # ev) = submitted ev"
  "submitted (Msg_Err m # ev) = submitted ev"
  "submitted (ev1 @ ev2) = submitted ev1 @ submitted ev2"
  by (simp_all add: submitted_def)

lemma submitted_set_props:
  "submitted (snd (dvb_set_props os d props)) = [props]"
  by (simp add: dvb_set_props_def Let_def submitted_def split_def comp_def)

lemma master_cmds_simps [simp]:
  "master_cmds [] = []"
  "master_cmds (Sys (FE_DISEQC_SEND_MASTER_CMD f m) # ev) = m # master_cmds ev"
  "master_cmds (Sys (FE_SET_PROPERTY f props) # ev) = master_cmds ev"
  "master_cmds (Sys (FE_ENABLE_HIGH_LNB_VOLTAGE f v) # ev) = master_cmds ev"
  "master_cmds (Sys (FE_DISEQC_SEND_BURST f b) # ev) = master_cmds ev"
  "master_cmds (Msg_Dbg msg # ev) = master_cmds ev"
  "master_cmds (Msg_Err msg # ev) = master_cmds ev"
  "master_cmds (Msleep t # ev) = master_cmds ev"
  "master_cmds (ev1 @ ev2) = master_cmds ev1 @ master_cmds ev2"
  by (simp_all add: master_cmds_def)

lemma master_cmds_lnb [simp]:
  "master_cmds (snd (snd (lnb_oscillators freq lowf highf))) = []"
  by (simp add: lnb_oscillators_def Let_def split: option.split)

lemma master_cmds_set_props [simp]:
  "master_cmds (snd (dvb_set_props os d props)) = []"
  by (induction props) (auto simp: dvb_set_props_def Let_def master_cmds_def)

lemma opens_simps [simp]:
  "opens [] = 0"
  "opens (Sys (Openat f t n fl) # ev) = Suc (opens ev)"
  "opens (Sys (Fcntl_nonblock f) # ev) = opens ev"
  "opens (Sys (DMX_SET_PES_FILTER f prm) # ev) = opens ev"
  "opens (Sys (Close f) # ev) = opens ev"
  "opens (Msg_Err m # ev) = opens ev"
  "opens (Set_errno e # ev) = opens ev"
  by (simp_all add: opens_def)

subsection \<open>The configurators\<close>

text \<open>
  C6 (amended): every call of \<open>dvb_set_dvbt\<close> submits exactly one property set; in it
  \<open>DTV_FREQUENCY\<close> is the input frequency times 1000 and \<open>DTV_BANDWIDTH_HZ\<close> the input
  bandwidth times 1000000, both products taken in \<open>uint32_t\<close>, that is modulo \<open>2^32\<close>:
  they are the exact products for a frequency up to 4294967 and a bandwidth up to 4294,
  and their remainders beyond.
\<close>

theorem dvb_set_dvbt_scaling:
  "submitted (snd (dvb_set_dvbt os d freq modstr fechstr feclstr bandwidth transmit_val guardstr
                     hierarchy_val))
     = [[(DTV_CLEAR, 0), (DTV_DELIVERY_SYSTEM, SYS_DVBT), (DTV_FREQUENCY, freq * 1000),
         (DTV_MODULATION, dvb_parse_modulation modstr QAM_AUTO),
         (DTV_CODE_RATE_HP, dvb_parse_fec fechstr), (DTV_CODE_RATE_LP, dvb_parse_fec feclstr),
         (DTV_BANDWIDTH_HZ, bandwidth * 1000000),
         (DTV_TRANSMISSION_MODE, dvb_parse_transmit_mode transmit_val),
         (DTV_GUARD_INTERVAL, dvb_parse_guard guardstr),
         (DTV_HIERARCHY, dvb_parse_hierarchy hierarchy_val)]]
   \<and> unat (freq * 1000) = unat freq * 1000 mod 2 ^ 32
   \<and> unat (bandwidth * 1000000) = unat bandwidth * 1000000 mod 2 ^ 32
   \<and> (unat freq \<le> 4294967 \<longrightarrow> unat (freq * 1000) = unat freq * 1000)
   \<and> (unat bandwidth \<le> 4294 \<longrightarrow> unat (bandwidth * 1000000) = unat bandwidth * 1000000)"
proof -
  have f: "unat (freq * 1000) = unat freq * 1000 mod 2 ^ 32"
    and b: "unat (bandwidth * 1000000) = unat bandwidth * 1000000 mod 2 ^ 32"
    by (simp_all add: unat_word_ariths)
  have f': "unat (freq * 1000) = unat freq * 1000" if "unat freq \<le> 4294967"
  proof -
    from that have "unat freq * 1000 < 2 ^ 32" by simp
    with f show ?thesis by simp
  qed
  have b': "unat (bandwidth * 1000000) = unat bandwidth * 1000000" if "unat bandwidth \<le> 4294"
  proof -
    from that have "unat bandwidth * 1000000 < 2 ^ 32" by simp
    with b show ?thesis by simp
  qed
  have s: "submitted (snd (dvb_set_dvbt os d freq modstr fechstr feclstr bandwidth transmit_val
                     guardstr hierarchy_val))
     = [[(DTV_CLEAR, 0), (DTV_DELIVERY_SYSTEM, SYS_DVBT), (DTV_FREQUENCY, freq * 1000),
         (DTV_MODULATION, dvb_parse_modulation modstr QAM_AUTO),
         (DTV_CODE_RATE_HP, dvb_parse_fec fechstr), (DTV_CODE_RATE_LP, dvb_parse_fec feclstr),
         (DTV_BANDWIDTH_HZ, bandwidth * 1000000),
         (DTV_TRANSMISSION_MODE, dvb_parse_transmit_mode transmit_val),
         (DTV_GUARD_INTERVAL, dvb_parse_guard guardstr),
         (DTV_HIERARCHY, dvb_parse_hierarchy hierarchy_val)]]"
    by (simp add: dvb_set_dvbt_def Let_def submitted_set_props)
  from s f b f' b' show ?thesis by blast
qed

theorem dvb_set_dvbt_scaling_witness:
  "unat (474000 :: uint32_t) \<le> 4294967 \<and> unat (8 :: uint32_t) \<le> 4294
   \<and> submitted (snd (dvb_set_dvbt example_kernel example_device 474000 None None None 8 (- 1)
                        None (- 1)))
       = [[(DTV_CLEAR, 0), (DTV_DELIVERY_SYSTEM, SYS_DVBT), (DTV_FREQUENCY, 474000000),
           (DTV_MODULATION, QAM_AUTO), (DTV_CODE_RATE_HP, FEC_AUTO), (DTV_CODE_RATE_LP, FEC_AUTO),
           (DTV_BANDWIDTH_HZ, 8000000), (DTV_TRANSMISSION_MODE, TRANSMISSION_MODE_AUTO),
           (DTV_GUARD_INTERVAL, GUARD_INTERVAL_AUTO), (DTV_HIERARCHY, HIERARCHY_AUTO)]]
   \<and> unat (474000 * 1000 :: uint32_t) = 474000 * 1000
   \<and> unat (8 * 1000000 :: uint32_t) = 8 * 1000000"
proof -
  have p: "dvb_parse_modulation None QAM_AUTO = QAM_AUTO" "dvb_parse_fec None = FEC_AUTO"
    "dvb_parse_guard None = GUARD_INTERVAL_AUTO"
    by (simp_all add: dvb_parse_modulation_def dvb_parse_fec_def dvb_parse_guard_def
        dvb_parse_str_def)
  have t: "dvb_parse_transmit_mode (- 1) = TRANSMISSION_MODE_AUTO"
    by (simp add: dvb_parse_transmit_mode_def dvb_parse_int_def bsearch_def transmit_mode_tab_def
        icmp_def fe_enum_defs bsearch_loop.simps)
  have h: "dvb_parse_hierarchy (- 1) = HIERARCHY_AUTO"
    by (simp add: dvb_parse_hierarchy_def dvb_parse_int_def bsearch_def hierarchy_tab_def
        icmp_def fe_enum_defs bsearch_loop.simps)
  from dvb_set_dvbt_scaling[of example_kernel example_device 474000 None None None 8 "- 1"
      None "- 1"] p t h
  show ?thesis by simp
qed

theorem dvb_set_dvbt_overflow_counterexample:
  "submitted (snd (dvb_set_dvbt example_kernel example_device 5000000 None None None 4295 (- 1)
                     None (- 1)))
     = [[(DTV_CLEAR, 0), (DTV_DELIVERY_SYSTEM, SYS_DVBT), (DTV_FREQUENCY, 705032704),
         (DTV_MODULATION, QAM_AUTO), (DTV_CODE_RATE_HP, FEC_AUTO), (DTV_CODE_RATE_LP, FEC_AUTO),
         (DTV_BANDWIDTH_HZ, 32704), (DTV_TRANSMISSION_MODE, TRANSMISSION_MODE_AUTO),
         (DTV_GUARD_INTERVAL, GUARD_INTERVAL_AUTO), (DTV_HIERARCHY, HIERARCHY_AUTO)]]
   \<and> unat (705032704 :: uint32_t) \<noteq> unat (5000000 :: uint32_t) * 1000
   \<and> unat (32704 :: uint32_t) \<noteq> unat (4295 :: uint32_t) * 1000000"
proof -
  have p: "dvb_parse_modulation None QAM_AUTO = QAM_AUTO" "dvb_parse_fec None = FEC_AUTO"
    "dvb_parse_guard None = GUARD_INTERVAL_AUTO"
    by (simp_all add: dvb_parse_modulation_def dvb_parse_fec_def dvb_parse_guard_def
        dvb_parse_str_def)
  have t: "dvb_parse_transmit_mode (- 1) = TRANSMISSION_MODE_AUTO"
    by (simp add: dvb_parse_transmit_mode_def dvb_parse_int_def bsearch_def transmit_mode_tab_def
        icmp_def fe_enum_defs bsearch_loop.simps)
  have h: "dvb_parse_hierarchy (- 1) = HIERARCHY_AUTO"
    by (simp add: dvb_parse_hierarchy_def dvb_parse_int_def bsearch_def hierarchy_tab_def
        icmp_def fe_enum_defs bsearch_loop.simps)
  show ?thesis
    by (simp add: dvb_set_dvbt_def Let_def submitted_set_props p t h)
qed

text \<open>
  C3: the specification has an unrecognised roll-off map to \<open>ROLLOFF_AUTO\<close>. The default branch
  of the roll-off \<open>switch\<close> names \<open>PILOT_AUTO\<close>: for the roll-off argument 0 the
  property set carries \<open>DTV_ROLLOFF = PILOT_AUTO\<close>, which is not \<open>ROLLOFF_AUTO\<close> and has
  the value of \<open>ROLLOFF_25\<close>. The pilot argument and the roll-offs 20, 25 and 35 are
  translated as the specification says.
\<close>

theorem dvb_set_dvbs2_rolloff_other:
  "submitted (snd (dvb_set_dvbs2 os d freq modstr srate fecstr pilot 0))
     = [[(DTV_CLEAR, 0), (DTV_DELIVERY_SYSTEM, SYS_DVBS2), (DTV_FREQUENCY, freq),
         (DTV_MODULATION, dvb_parse_modulation modstr QPSK), (DTV_SYMBOL_RATE, srate),
         (DTV_INNER_FEC, dvb_parse_fec fecstr), (DTV_PILOT, dvbs2_pilot pilot),
         (DTV_ROLLOFF, PILOT_AUTO)]]
   \<and> PILOT_AUTO \<noteq> ROLLOFF_AUTO \<and> PILOT_AUTO = ROLLOFF_25
   \<and> dvbs2_pilot 0 = PILOT_OFF \<and> dvbs2_pilot 1 = PILOT_ON \<and> dvbs2_pilot 7 = PILOT_AUTO
   \<and> dvbs2_rolloff 20 = ROLLOFF_20 \<and> dvbs2_rolloff 25 = ROLLOFF_25
   \<and> dvbs2_rolloff 35 = ROLLOFF_35"
  by (simp add: dvb_set_dvbs2_def Let_def submitted_set_props dvbs2_rolloff_def dvbs2_pilot_def
      fe_enum_defs)

lemma lnb_in_trace:
  "set (snd (snd (lnb_oscillators freq lowf highf)))
     \<subseteq> set (snd (dvb_set_sec os cfg d freq pol lowf highf switchf))"
  by (auto simp: dvb_set_sec_def Let_def split_def)

lemma polarization_V: "dvb_parse_polarization CHR ''V'' = SEC_VOLTAGE_13"
  by (simp add: dvb_parse_polarization_def dvb_parse_int_def bsearch_def polarization_tab_def
      icmp_def fe_enum_defs bsearch_loop.simps)

text \<open>
  C1 (amended): with no low oscillator frequency given, 11000 MHz selects the Ku-band pair
  9750000/10600000 kHz; 5000 MHz and 3000 MHz match no band: the error is logged, the low
  frequency stays 0 and the high frequency keeps the value passed in. The pair 5950000/0
  of the upper C band is selected by the frequencies from 4500 to 4800 MHz. What the
  block logs is part of the trace of \<open>dvb_set_sec\<close>.
\<close>

theorem lnb_band_selection:
  "lnb_oscillators 11000000 0 highf
     = (9750000, 10600000, [Msg_Dbg (Selected_LNB 9750000 10600000)])
   \<and> lnb_oscillators 5000000 0 highf
     = (0, highf, [Msg_Err (No_known_band_for_frequency 5000000), Msg_Dbg (Selected_LNB 0 highf)])
   \<and> lnb_oscillators 3000000 0 highf
     = (0, highf, [Msg_Err (No_known_band_for_frequency 3000000), Msg_Dbg (Selected_LNB 0 highf)])
   \<and> (4500 \<le> freq div 1000 \<and> freq div 1000 \<le> 4800 \<longrightarrow>
        lnb_oscillators freq 0 highf = (5950000, 0, [Msg_Dbg (Selected_LNB 5950000 0)]))
   \<and> set (snd (snd (lnb_oscillators freq lowf highf)))
        \<subseteq> set (snd (dvb_set_sec os cfg d freq pol lowf highf switchf))"
proof -
  have "lnb_oscillators freq 0 highf = (5950000, 0, [Msg_Dbg (Selected_LNB 5950000 0)])"
    if "4500 \<le> freq div 1000" "freq div 1000 \<le> 4800"
    using that by (auto simp: lnb_oscillators_def lnb_tab_def word_le_nat_alt)
  then show ?thesis
    using lnb_in_trace[of freq lowf highf os cfg d pol switchf]
    by (simp add: lnb_oscillators_def lnb_tab_def)
qed

theorem lnb_band_selection_witness:
  "(4500 :: uint32_t) \<le> 4600000 div 1000 \<and> (4600000 :: uint32_t) div 1000 \<le> 4800
   \<and> lnb_oscillators 4600000 0 0 = (5950000, 0, [Msg_Dbg (Selected_LNB 5950000 0)])"
  using lnb_band_selection[of 0 4600000] by simp

theorem lnb_5000_counterexample:
  "lnb_oscillators 5000000 0 0
     = (0, 0, [Msg_Err (No_known_band_for_frequency 5000000), Msg_Dbg (Selected_LNB 0 0)])
   \<and> fst (lnb_oscillators 5000000 0 0) \<noteq> 5950000
   \<and> Msg_Err (No_known_band_for_frequency 5000000)
       \<in> set (snd (dvb_set_sec example_kernel example_config example_device 5000000 CHR ''V''
                      0 0 11700000))"
proof -
  have l: "lnb_oscillators 5000000 0 0
     = (0, 0, [Msg_Err (No_known_band_for_frequency 5000000), Msg_Dbg (Selected_LNB 0 0)])"
    by (simp add: lnb_oscillators_def lnb_tab_def)
  from lnb_in_trace[of 5000000 0 0 example_kernel example_config example_device "CHR ''V''"
      11700000] l show ?thesis by simp
qed

text \<open>
  C2 (amended): with satellite number 2, polarisation \<open>V\<close> and the tone forced on, a call
  of \<open>dvb_set_sec\<close> that passes its assertion and whose voltage property set is accepted
  sends exactly one DiSEqC command, with the bytes \<open>E0 10 38 F5 00 00\<close>: the data byte is
  \<open>0xF0 | (1<<2) | (0<<1) | 1 = 0xF5\<close>.
\<close>

theorem diseqc_command_bytes:
  assumes "var_dvb_satno cfg = 2" "var_dvb_tone cfg = 1"
    and "dvb_set_sec os cfg d freq (CHR ''V'') lowf highf switchf = (Inr r, ev)"
    and "0 \<le> sys_ret os (FE_SET_PROPERTY (frontend d)
                 [(DTV_TONE, SEC_TONE_OFF), (DTV_VOLTAGE, SEC_VOLTAGE_13)])"
  shows "master_cmds ev = [[0xE0, 0x10, 0x38, 0xF5, 0, 0]]"
proof -
  have m: "diseqc_msg ((2 - 1) AND 3) SEC_VOLTAGE_13 SEC_TONE_ON = [0xE0, 0x10, 0x38, 0xF5, 0, 0]"
    by (simp add: diseqc_msg_def fe_enum_defs)
  have r1: "fst (dvb_set_props os d [(DTV_TONE, SEC_TONE_OFF), (DTV_VOLTAGE, SEC_VOLTAGE_13)]) = 0"
    using assms(4) by (simp add: dvb_set_props_def Let_def)
  from assms(3) have "ev = snd (dvb_set_sec os cfg d freq (CHR ''V'') lowf highf switchf)"
    and "fst (dvb_set_sec os cfg d freq (CHR ''V'') lowf highf switchf) \<noteq> Inl Assertion_failed"
    by simp_all
  then show ?thesis
    using assms(1,2) r1 m
    by (auto simp add: dvb_set_sec_def Let_def split_def polarization_V split: if_splits)
qed

theorem diseqc_command_bytes_witness:
  "var_dvb_satno example_config = 2 \<and> var_dvb_tone example_config = 1
   \<and> fst (dvb_set_sec example_kernel example_config example_device 11000000 CHR ''V'' 0 0 11700000)
       = Inr 0
   \<and> 0 \<le> sys_ret example_kernel (FE_SET_PROPERTY (frontend example_device)
                 [(DTV_TONE, SEC_TONE_OFF), (DTV_VOLTAGE, SEC_VOLTAGE_13)])
   \<and> master_cmds (snd (dvb_set_sec example_kernel example_config example_device 11000000
                         CHR ''V'' 0 0 11700000)) = [[0xE0, 0x10, 0x38, 0xF5, 0, 0]]"
proof -
  have a: "var_dvb_satno example_config = 2" "var_dvb_tone example_config = 1"
    by (simp_all add: example_config_def)
  have b: "0 \<le> sys_ret example_kernel (FE_SET_PROPERTY (frontend example_device)
                 [(DTV_TONE, SEC_TONE_OFF), (DTV_VOLTAGE, SEC_VOLTAGE_13)])"
    by (simp add: example_kernel_def)
  have c: "fst (dvb_set_sec example_kernel example_config example_device 11000000 CHR ''V'' 0 0
                  11700000) = Inr 0"
    by (simp add: dvb_set_sec_def Let_def split_def polarization_V example_kernel_def
        example_config_def example_device_def lnb_oscillators_def lnb_tab_def dvb_set_props_def
        fe_enum_defs)
  from diseqc_command_bytes[OF a _ b,
      of 11000000 0 0 11700000 0
         "snd (dvb_set_sec example_kernel example_config example_device 11000000 CHR ''V'' 0 0
                 11700000)"] a b c
  show ?thesis by (simp add: prod_eq_iff)
qed

theorem diseqc_data_byte_counterexample:
  "master_cmds (snd (dvb_set_sec example_kernel example_config example_device 11000000
                       CHR ''V'' 0 0 11700000)) = [[0xE0, 0x10, 0x38, 0xF5, 0, 0]]
   \<and> master_cmds (snd (dvb_set_sec example_kernel example_config example_device 11000000
                       CHR ''V'' 0 0 11700000)) \<noteq> [[0xE0, 0x10, 0x38, 0xFD, 0, 0]]
   \<and> (0xF0 OR push_bit 2 1 OR push_bit 1 0 OR 1 :: uint8_t) = 0xF5"
  by (simp add: dvb_set_sec_def Let_def split_def polarization_V example_kernel_def
        example_config_def example_device_def lnb_oscillators_def lnb_tab_def dvb_set_props_def
        diseqc_msg_def fe_enum_defs)

subsection \<open>The PID filters\<close>

text \<open>
  C8: in budget mode \<open>dvb_add_pid\<close> returns 0 at once and \<open>dvb_remove_pid\<close> returns at
  once, for every PID; neither makes a system call nor changes a field of the session.
\<close>

theorem budget_add_remove_noop:
  "budget d \<Longrightarrow>
     dvb_add_pid os d p = (0, d, []) \<and> dvb_remove_pid d p = (d, [])
     \<and> dvb_remove_pid (fst (snd (dvb_add_pid os d p))) p = (d, [])"
  by (simp add: dvb_add_pid_def dvb_remove_pid_def)

theorem budget_add_remove_noop_witness:
  "budget (example_device\<lparr>budget := True\<rparr>)
   \<and> dvb_add_pid example_kernel (example_device\<lparr>budget := True\<rparr>) 0x100
       = (0, example_device\<lparr>budget := True\<rparr>, [])
   \<and> dvb_remove_pid (example_device\<lparr>budget := True\<rparr>) 0x100
       = (example_device\<lparr>budget := True\<rparr>, [])"
  using budget_add_remove_noop[of "example_device\<lparr>budget := True\<rparr>" example_kernel "0x100"]
  by simp

text \<open>The loop of \<open>dvb_add_pid\<close>: at a free slot, past used slots, and at a slot that
  holds the PID.\<close>

lemma dvb_add_pid_loop_free:
  assumes "i < MAX_PIDS" "pid (pids d i) \<noteq> p" "fd (pids d i) = - 1"
  shows "dvb_add_pid_loop os d p i =
          (let nfd = sys_ret os (Openat (dir d) ''demux'' (dev_id d) O_RDONLY);
               param = \<lparr>pes_pid = p, pes_input = DMX_IN_FRONTEND,
                            pes_output = DMX_OUT_TS_TAP, pes_type = DMX_PES_OTHER,
                            pes_flags = DMX_IMMEDIATE_START\<rparr> in
          (if nfd = - 1 then (- 1, d, [Sys (Openat (dir d) ''demux'' (dev_id d) O_RDONLY),
                                      Msg_Err (Cannot_add_PID p)])
           else if sys_ret os (DMX_SET_PES_FILTER nfd param) < 0 then
             (- 1, d, [Sys (Openat (dir d) ''demux'' (dev_id d) O_RDONLY), Sys (Fcntl_nonblock nfd),
                       Sys (DMX_SET_PES_FILTER nfd param), Sys (Close nfd),
                       Msg_Err (Cannot_add_PID p)])
           else (0, d\<lparr>pids := (pids d)(i := \<lparr>fd = nfd, pid = p\<rparr>)\<rparr>,
                 [Sys (Openat (dir d) ''demux'' (dev_id d) O_RDONLY), Sys (Fcntl_nonblock nfd),
                  Sys (DMX_SET_PES_FILTER nfd param)])))"
  apply (subst dvb_add_pid_loop.simps)
  apply (simp only: assms if_True if_False simp_thms)
  apply (simp only: dvb_open_node_def Let_def split_conv)
  apply (simp only: if_distrib[of "\<lambda>x. x @ _"] append_Cons append_Nil if_True if_False simp_thms split: if_split)
  apply (intro conjI impI)
  apply (simp_all only: if_True if_False simp_thms refl append_Cons append_Nil)
  done

lemma add_pid_loop_hit:
  "k < MAX_PIDS \<Longrightarrow> pid (pids d k) = p \<Longrightarrow> i \<le> k \<Longrightarrow>
   (\<forall>j. i \<le> j \<and> j < k \<longrightarrow> pid (pids d j) \<noteq> p \<and> fd (pids d j) \<noteq> - 1) \<Longrightarrow>
   dvb_add_pid_loop os d p i = (0, d, [])"
proof (induction "k - i" arbitrary: i)
  case 0
  then have "i = k" by simp
  with "0.prems"(1,2) show ?case by (subst dvb_add_pid_loop.simps) simp
next
  case (Suc n)
  then have lt: "i < k" by simp
  with Suc.prems(4) have s: "pid (pids d i) \<noteq> p" "fd (pids d i) \<noteq> - 1" by simp_all
  have "dvb_add_pid_loop os d p (i + 1) = (0, d, [])"
  proof (rule Suc.hyps(1))
    show "n = k - (i + 1)" using Suc.hyps(2) by simp
    show "i + 1 \<le> k" using lt by simp
    show "\<forall>j. i + 1 \<le> j \<and> j < k \<longrightarrow> pid (pids d j) \<noteq> p \<and> fd (pids d j) \<noteq> - 1"
      using Suc.prems(4) by simp
  qed (rule Suc.prems(1), rule Suc.prems(2))
  with s lt Suc.prems(1) show ?case by (subst dvb_add_pid_loop.simps) simp
qed

lemma add_pid_loop_skip:
  "k \<le> MAX_PIDS \<Longrightarrow> i \<le> k \<Longrightarrow>
   (\<forall>j. i \<le> j \<and> j < k \<longrightarrow> pid (pids d j) \<noteq> p \<and> fd (pids d j) \<noteq> - 1) \<Longrightarrow>
   dvb_add_pid_loop os d p i = dvb_add_pid_loop os d p k"
proof (induction "k - i" arbitrary: i)
  case 0
  then show ?case by simp
next
  case (Suc n)
  then have lt: "i < k" by simp
  with Suc.prems(3) have s: "pid (pids d i) \<noteq> p" "fd (pids d i) \<noteq> - 1" by simp_all
  have "dvb_add_pid_loop os d p (i + 1) = dvb_add_pid_loop os d p k"
  proof (rule Suc.hyps(1))
    show "n = k - (i + 1)" using Suc.hyps(2) by simp
    show "i + 1 \<le> k" using lt by simp
    show "\<forall>j. i + 1 \<le> j \<and> j < k \<longrightarrow> pid (pids d j) \<noteq> p \<and> fd (pids d j) \<noteq> - 1"
      using Suc.prems(3) by simp
  qed (rule Suc.prems(1))
  with s lt Suc.prems(1) show ?case by (subst dvb_add_pid_loop.simps) simp
qed

lemma add_pid_loop_success:
  "dvb_add_pid_loop os d p i = (0, d', ev) \<Longrightarrow>
   \<exists>k. i \<le> k \<and> k < MAX_PIDS
     \<and> (\<forall>j. i \<le> j \<and> j < k \<longrightarrow> pid (pids d j) \<noteq> p \<and> fd (pids d j) \<noteq> - 1)
     \<and> ((pid (pids d k) = p \<and> d' = d \<and> ev = [])
        \<or> (pid (pids d k) \<noteq> p \<and> fd (pids d k) = - 1
           \<and> (\<exists>nfd. nfd \<noteq> - 1 \<and> d' = d\<lparr>pids := (pids d)(k := \<lparr>fd = nfd, pid = p\<rparr>)\<rparr>)))"
proof (induction os d p i rule: dvb_add_pid_loop.induct)
  case (1 os d p i)
  show ?case
  proof (cases "i < MAX_PIDS")
    case False
    then have "dvb_add_pid_loop os d p i = (- 1, d, [Set_errno EMFILE, Msg_Err (Cannot_add_PID p)])"
      by (subst dvb_add_pid_loop.simps) simp
    with "1.prems" show ?thesis by simp
  next
    case True
    consider (hit) "pid (pids d i) = p"
      | (used) "pid (pids d i) \<noteq> p" "fd (pids d i) \<noteq> - 1"
      | (free) "pid (pids d i) \<noteq> p" "fd (pids d i) = - 1" by blast
    then show ?thesis
    proof cases
      case hit
      from True hit have "dvb_add_pid_loop os d p i = (0, d, [])"
        by (subst dvb_add_pid_loop.simps) simp
      with "1.prems" have e: "d' = d" "ev = []" by simp_all
      show ?thesis
      proof (rule exI[of _ i], intro conjI)
        show "pid (pids d i) = p \<and> d' = d \<and> ev = [] \<or>
              pid (pids d i) \<noteq> p \<and> fd (pids d i) = - 1 \<and>
              (\<exists>nfd. nfd \<noteq> - 1 \<and> d' = d\<lparr>pids := (pids d)(i := \<lparr>fd = nfd, pid = p\<rparr>)\<rparr>)"
          using hit e by (intro disjI1 conjI)
      qed (simp_all add: True)
    next
      case used
      with True have "dvb_add_pid_loop os d p i = dvb_add_pid_loop os d p (i + 1)"
        by (subst dvb_add_pid_loop.simps) simp
      with "1.prems" have "dvb_add_pid_loop os d p (i + 1) = (0, d', ev)"
        by simp
      from "1.IH"[OF True used(1) used(2) this] obtain k where
        k: "i + 1 \<le> k" "k < MAX_PIDS"
           "\<forall>j. i + 1 \<le> j \<and> j < k \<longrightarrow> pid (pids d j) \<noteq> p \<and> fd (pids d j) \<noteq> - 1"
           "(pid (pids d k) = p \<and> d' = d \<and> ev = [])
            \<or> (pid (pids d k) \<noteq> p \<and> fd (pids d k) = - 1
               \<and> (\<exists>nfd. nfd \<noteq> - 1 \<and> d' = d\<lparr>pids := (pids d)(k := \<lparr>fd = nfd, pid = p\<rparr>)\<rparr>))"
        by (elim exE conjE)
      have pre: "\<forall>j. i \<le> j \<and> j < k \<longrightarrow> pid (pids d j) \<noteq> p \<and> fd (pids d j) \<noteq> - 1"
      proof (intro allI impI)
        fix j assume "i \<le> j \<and> j < k"
        then have "j = i \<or> (i + 1 \<le> j \<and> j < k)" by linarith
        then show "pid (pids d j) \<noteq> p \<and> fd (pids d j) \<noteq> - 1"
        proof
          assume "j = i" with used show ?thesis by simp
        next
          assume "i + 1 \<le> j \<and> j < k" with k(3) show ?thesis by simp
        qed
      qed
      from k(1) have "i \<le> k" by simp
      show ?thesis
        by (rule exI[of _ k], intro conjI) (fact \<open>i \<le> k\<close>, fact k(2), fact pre, fact k(4))
    next
      case free
      define nfd where "nfd = sys_ret os (Openat (dir d) ''demux'' (dev_id d) O_RDONLY)"
      define param where "param = \<lparr>pes_pid = p, pes_input = DMX_IN_FRONTEND,
                            pes_output = DMX_OUT_TS_TAP, pes_type = DMX_PES_OTHER,
                            pes_flags = DMX_IMMEDIATE_START\<rparr>"
      note st = dvb_add_pid_loop_free[OF True free, of os, unfolded Let_def, folded nfd_def, folded param_def]
      have ok: "nfd \<noteq> - 1"
      proof
        assume "nfd = - 1"
        with st have "dvb_add_pid_loop os d p i = (- 1, d, [Sys (Openat (dir d) ''demux'' (dev_id d) O_RDONLY),
                                      Msg_Err (Cannot_add_PID p)])" by (simp only: if_True simp_thms)
        with "1.prems" show False by simp
      qed
      have ok2: "\<not> sys_ret os (DMX_SET_PES_FILTER nfd param) < 0"
      proof
        assume a: "sys_ret os (DMX_SET_PES_FILTER nfd param) < 0"
        with st ok have "dvb_add_pid_loop os d p i = (- 1, d, [Sys (Openat (dir d) ''demux'' (dev_id d) O_RDONLY), Sys (Fcntl_nonblock nfd),
                       Sys (DMX_SET_PES_FILTER nfd param), Sys (Close nfd),
                       Msg_Err (Cannot_add_PID p)])" by (simp only: if_True if_False simp_thms)
        with "1.prems" show False by simp
      qed
      from st ok ok2 have "dvb_add_pid_loop os d p i = (0 :: int, d\<lparr>pids := (pids d)(i := \<lparr>fd = nfd, pid = p\<rparr>)\<rparr>,
                 [Sys (Openat (dir d) ''demux'' (dev_id d) O_RDONLY), Sys (Fcntl_nonblock nfd),
                  Sys (DMX_SET_PES_FILTER nfd param)])"
        by (simp only: if_False simp_thms)
      with "1.prems" have "(0 :: int, d\<lparr>pids := (pids d)(i := \<lparr>fd = nfd, pid = p\<rparr>)\<rparr>,
                 [Sys (Openat (dir d) ''demux'' (dev_id d) O_RDONLY), Sys (Fcntl_nonblock nfd),
                  Sys (DMX_SET_PES_FILTER nfd param)]) = (0, d', ev)" by (simp only:)
      then have "d' = d\<lparr>pids := (pids d)(i := \<lparr>fd = nfd, pid = p\<rparr>)\<rparr>"
        by (simp only: prod.inject)
      with ok have
        ex: "\<exists>nfd. nfd \<noteq> - 1 \<and> d' = d\<lparr>pids := (pids d)(i := \<lparr>fd = nfd, pid = p\<rparr>)\<rparr>"
        by (intro exI[of _ nfd] conjI)
      show ?thesis
      proof (rule exI[of _ i], intro conjI)
        show "pid (pids d i) = p \<and> d' = d \<and> ev = [] \<or>
              pid (pids d i) \<noteq> p \<and> fd (pids d i) = - 1 \<and>
              (\<exists>nfd. nfd \<noteq> - 1 \<and> d' = d\<lparr>pids := (pids d)(i := \<lparr>fd = nfd, pid = p\<rparr>)\<rparr>)"
          using free ex by (intro disjI2 conjI)
      qed (simp_all add: True)
    qed
  qed
qed

lemma add_pid_loop_full:
  assumes "\<forall>j. i \<le> j \<and> j < MAX_PIDS \<longrightarrow> pid (pids d j) \<noteq> p \<and> fd (pids d j) \<noteq> - 1"
    and "i \<le> MAX_PIDS"
  shows "dvb_add_pid_loop os d p i = (- 1, d, [Set_errno EMFILE, Msg_Err (Cannot_add_PID p)])"
proof -
  have "dvb_add_pid_loop os d p i = dvb_add_pid_loop os d p MAX_PIDS"
    by (rule add_pid_loop_skip[OF order_refl assms(2) assms(1)])
  also have "\<dots> = (- 1, d, [Set_errno EMFILE, Msg_Err (Cannot_add_PID p)])"
    by (subst dvb_add_pid_loop.simps) simp
  finally show ?thesis .
qed

lemma add_pid_loop_free_opens:
  assumes "k < MAX_PIDS" "pid (pids d k) \<noteq> p" "fd (pids d k) = - 1"
    and "dvb_add_pid_loop os d p k = (r, d', ev)"
  shows "opens ev = 1 \<and> (r = 0 \<longrightarrow> pid (pids d' k) = p)"
proof -
  define nfd where "nfd = sys_ret os (Openat (dir d) ''demux'' (dev_id d) O_RDONLY)"
  define param where "param = \<lparr>pes_pid = p, pes_input = DMX_IN_FRONTEND,
                            pes_output = DMX_OUT_TS_TAP, pes_type = DMX_PES_OTHER,
                            pes_flags = DMX_IMMEDIATE_START\<rparr>"
  note st = dvb_add_pid_loop_free[OF assms(1-3), of os, unfolded Let_def, folded nfd_def,
      folded param_def]
  consider (a) "nfd = - 1" | (b) "nfd \<noteq> - 1" "sys_ret os (DMX_SET_PES_FILTER nfd param) < 0"
    | (c) "nfd \<noteq> - 1" "\<not> sys_ret os (DMX_SET_PES_FILTER nfd param) < 0" by blast
  then show ?thesis
  proof cases
    case a
    with st have "dvb_add_pid_loop os d p k
        = (- 1, d, [Sys (Openat (dir d) ''demux'' (dev_id d) O_RDONLY), Msg_Err (Cannot_add_PID p)])"
      by (simp only: if_True simp_thms)
    from trans[OF assms(4)[symmetric] this, unfolded prod.inject]
    have "r = - 1" "ev = [Sys (Openat (dir d) ''demux'' (dev_id d) O_RDONLY),
        Msg_Err (Cannot_add_PID p)]" by blast+
    then show ?thesis by simp
  next
    case b
    with st have "dvb_add_pid_loop os d p k
        = (- 1, d, [Sys (Openat (dir d) ''demux'' (dev_id d) O_RDONLY), Sys (Fcntl_nonblock nfd),
                       Sys (DMX_SET_PES_FILTER nfd param), Sys (Close nfd),
                       Msg_Err (Cannot_add_PID p)])"
      by (simp only: if_True if_False simp_thms)
    from trans[OF assms(4)[symmetric] this, unfolded prod.inject]
    have "r = - 1" "ev = [Sys (Openat (dir d) ''demux'' (dev_id d) O_RDONLY),
        Sys (Fcntl_nonblock nfd), Sys (DMX_SET_PES_FILTER nfd param), Sys (Close nfd),
        Msg_Err (Cannot_add_PID p)]" by blast+
    then show ?thesis by simp
  next
    case c
    with st have "dvb_add_pid_loop os d p k
        = (0, d\<lparr>pids := (pids d)(k := \<lparr>fd = nfd, pid = p\<rparr>)\<rparr>,
                 [Sys (Openat (dir d) ''demux'' (dev_id d) O_RDONLY), Sys (Fcntl_nonblock nfd),
                  Sys (DMX_SET_PES_FILTER nfd param)])"
      by (simp only: if_False simp_thms)
    from trans[OF assms(4)[symmetric] this, unfolded prod.inject]
    have e: "d' = d\<lparr>pids := (pids d)(k := \<lparr>fd = nfd, pid = p\<rparr>)\<rparr>"
      "ev = [Sys (Openat (dir d) ''demux'' (dev_id d) O_RDONLY), Sys (Fcntl_nonblock nfd),
                  Sys (DMX_SET_PES_FILTER nfd param)]"
      by blast+
    have "pid (pids d' k) = p" unfolding e(1) by simp
    with e(2) show ?thesis by simp
  qed
qed

text \<open>
  C7: in fallback mode, after \<open>dvb_add_pid\<close> has returned 0 for a PID, a second call
  for the same PID, whatever the kernel would answer, returns 0, leaves the session as it
  is and makes no system call, so it opens no descriptor and takes no slot.
\<close>

theorem dvb_add_pid_twice:
  assumes "\<not> budget d" and "dvb_add_pid os d p = (0, d', ev)"
  shows "dvb_add_pid os' d' p = (0, d', []) \<and> opens (snd (snd (dvb_add_pid os' d' p))) = 0"
proof -
  from assms have "dvb_add_pid_loop os d p 0 = (0, d', ev)"
    by (simp add: dvb_add_pid_def)
  from add_pid_loop_success[OF this] obtain k where
    k: "k < MAX_PIDS"
       "\<forall>j. 0 \<le> j \<and> j < k \<longrightarrow> pid (pids d j) \<noteq> p \<and> fd (pids d j) \<noteq> - 1"
       "(pid (pids d k) = p \<and> d' = d \<and> ev = [])
        \<or> (pid (pids d k) \<noteq> p \<and> fd (pids d k) = - 1
           \<and> (\<exists>nfd. nfd \<noteq> - 1 \<and> d' = d\<lparr>pids := (pids d)(k := \<lparr>fd = nfd, pid = p\<rparr>)\<rparr>))"
    by (elim exE conjE)
  from k(3) have d': "\<not> budget d' \<and> pid (pids d' k) = p
      \<and> (\<forall>j. 0 \<le> j \<and> j < k \<longrightarrow> pid (pids d' j) \<noteq> p \<and> fd (pids d' j) \<noteq> - 1)"
  proof
    assume "pid (pids d k) = p \<and> d' = d \<and> ev = []"
    with assms(1) k(2) show ?thesis by simp
  next
    assume "pid (pids d k) \<noteq> p \<and> fd (pids d k) = - 1
           \<and> (\<exists>nfd. nfd \<noteq> - 1 \<and> d' = d\<lparr>pids := (pids d)(k := \<lparr>fd = nfd, pid = p\<rparr>)\<rparr>)"
    then obtain nfd where "d' = d\<lparr>pids := (pids d)(k := \<lparr>fd = nfd, pid = p\<rparr>)\<rparr>"
      by (elim exE conjE)
    with assms(1) k(2) show ?thesis by simp
  qed
  have "dvb_add_pid_loop os' d' p 0 = (0, d', [])"
    by (rule add_pid_loop_hit[OF k(1)]) (use d' in simp_all)
  with d' show ?thesis by (simp add: dvb_add_pid_def opens_def)
qed

theorem dvb_add_pid_twice_witness:
  "\<not> budget example_device
   \<and> dvb_add_pid example_kernel example_device 0x100
       = (0, example_device\<lparr>pids := (pids example_device)(0 := \<lparr>fd = 8, pid = 0x100\<rparr>)\<rparr>,
          [Sys (Openat 4 ''demux'' 0 O_RDONLY), Sys (Fcntl_nonblock 8),
           Sys (DMX_SET_PES_FILTER 8 \<lparr>pes_pid = 0x100, pes_input = DMX_IN_FRONTEND,
                  pes_output = DMX_OUT_TS_TAP, pes_type = DMX_PES_OTHER,
                  pes_flags = DMX_IMMEDIATE_START\<rparr>)])
   \<and> dvb_add_pid example_kernel
        (example_device\<lparr>pids := (pids example_device)(0 := \<lparr>fd = 8, pid = 0x100\<rparr>)\<rparr>) 0x100
       = (0, example_device\<lparr>pids := (pids example_device)(0 := \<lparr>fd = 8, pid = 0x100\<rparr>)\<rparr>, [])"
proof -
  have b: "\<not> budget example_device" by (simp add: example_device_def)
  have i: "0 < MAX_PIDS" by (simp add: MAX_PIDS_def)
  have s: "pid (pids example_device 0) \<noteq> 0x100" "fd (pids example_device 0) = - 1"
    by (simp_all add: example_device_def free_slot_def MAX_PIDS_def)
  have a: "dvb_add_pid example_kernel example_device 0x100
       = (0, example_device\<lparr>pids := (pids example_device)(0 := \<lparr>fd = 8, pid = 0x100\<rparr>)\<rparr>,
          [Sys (Openat 4 ''demux'' 0 O_RDONLY), Sys (Fcntl_nonblock 8),
           Sys (DMX_SET_PES_FILTER 8 \<lparr>pes_pid = 0x100, pes_input = DMX_IN_FRONTEND,
                  pes_output = DMX_OUT_TS_TAP, pes_type = DMX_PES_OTHER,
                  pes_flags = DMX_IMMEDIATE_START\<rparr>)])"
    unfolding dvb_add_pid_def dvb_add_pid_loop_free[OF i s, of example_kernel]
    by (simp add: b Let_def example_kernel_def) (simp add: example_device_def)
  from dvb_add_pid_twice[OF b a, of example_kernel] a b show ?thesis by simp
qed

subsection \<open>The session that \<open>dvb_open\<close> returns\<close>

lemma fold_free_slot:
  "fold (\<lambda>i t. t(i := free_slot)) [0 ..< n] f = (\<lambda>i. if i < n then free_slot else f i)"
  by (induction n) (auto simp: fun_eq_iff)

lemma dvb_open_tune_keeps:
  assumes "dvb_open_tune os dirfd adapter device tune d = (Some d', ev)"
  shows "pids d' = pids d \<and> budget d' = budget d"
proof (cases tune)
  case False
  with assms show ?thesis by (simp add: dvb_open_tune_def)
next
  case True
  define fe where "fe = sys_ret os (Openat dirfd ''frontend'' device O_RDWR)"
  define cafd where "cafd = sys_ret os (Openat dirfd ''ca'' device O_RDWR)"
  from assms True have "d' = d\<lparr>frontend := fe, info := info_of os fe, ca := cafd\<rparr>"
    by (simp add: dvb_open_tune_def dvb_open_node_def Let_def fe_def cafd_def split: if_splits)
  then show ?thesis by simp
qed

lemma dvb_open_fallback:
  assumes "dvb_open os cfg junk tune = (Some d, ev)" "\<not> var_dvb_budget_mode cfg"
  shows "\<not> budget d \<and> (\<forall>i<MAX_PIDS. pids d i = free_slot)"
proof -
  define adapter where "adapter = (word_of_int (var_dvb_adapter cfg) :: uint8_t)"
  define device where "device = (word_of_int (var_dvb_device cfg) :: uint8_t)"
  define dirfd where "dirfd = sys_ret os (Open_adapter adapter)"
  define d3 where "d3 = junk\<lparr>frontend := - 1, ca := - 1, budget := False,
      dir := sys_ret os (Fcntl_dupfd_cloexec dirfd), dev_id := device,
      pids := fold (\<lambda>i t. t(i := free_slot)) [0 ..< MAX_PIDS] (pids junk),
      demux := sys_ret os (Openat (sys_ret os (Fcntl_dupfd_cloexec dirfd)) ''dvr'' device O_RDONLY)\<rparr>"
  from assms have "fst (dvb_open_tune os dirfd adapter device tune d3) = Some d"
    by (simp add: dvb_open_def dvb_open_adapter_def dvb_open_node_def Let_def split_def
        adapter_def device_def dirfd_def d3_def split: if_splits)
  then have "dvb_open_tune os dirfd adapter device tune d3
      = (Some d, snd (dvb_open_tune os dirfd adapter device tune d3))"
    by (simp add: prod_eq_iff)
  from dvb_open_tune_keeps[OF this] have "pids d = pids d3" "budget d = budget d3" by simp_all
  then show ?thesis by (simp add: d3_def fold_free_slot)
qed

lemma example_open:
  "fst (dvb_open example_kernel example_config example_junk True) = Some example_device"
  by (simp add: dvb_open_def dvb_open_adapter_def dvb_open_node_def dvb_open_tune_def Let_def
      example_kernel_def example_config_def example_junk_def example_device_def fold_free_slot
      fun_eq_iff)

lemma example_device_simps:
  "\<not> budget example_device" "dir example_device = 4" "dev_id example_device = 0"
  "pids example_device 0 = free_slot"
  by (simp_all add: example_device_def MAX_PIDS_def)

lemma add_pid_zero_scan:
  assumes "\<not> budget d" "k < MAX_PIDS"
    and "\<forall>j. j < k \<longrightarrow> pid (pids d j) \<noteq> 0 \<and> fd (pids d j) \<noteq> - 1"
  shows "pid (pids d k) = 0 \<Longrightarrow> dvb_add_pid os d 0 = (0, d, [])"
    and "pid (pids d k) \<noteq> 0 \<Longrightarrow> fd (pids d k) = - 1 \<Longrightarrow>
         nfd = sys_ret os (Openat (dir d) ''demux'' (dev_id d) O_RDONLY) \<Longrightarrow>
         param = \<lparr>pes_pid = 0, pes_input = DMX_IN_FRONTEND, pes_output = DMX_OUT_TS_TAP,
                    pes_type = DMX_PES_OTHER, pes_flags = DMX_IMMEDIATE_START\<rparr> \<Longrightarrow>
         dvb_add_pid os d 0 =
           (if nfd = - 1 then
              (- 1, d, [Sys (Openat (dir d) ''demux'' (dev_id d) O_RDONLY),
                        Msg_Err (Cannot_add_PID 0)])
            else if sys_ret os (DMX_SET_PES_FILTER nfd param) < 0 then
              (- 1, d, [Sys (Openat (dir d) ''demux'' (dev_id d) O_RDONLY),
                        Sys (Fcntl_nonblock nfd), Sys (DMX_SET_PES_FILTER nfd param),
                        Sys (Close nfd), Msg_Err (Cannot_add_PID 0)])
            else
              (0, d\<lparr>pids := (pids d)(k := \<lparr>fd = nfd, pid = 0\<rparr>)\<rparr>,
               [Sys (Openat (dir d) ''demux'' (dev_id d) O_RDONLY), Sys (Fcntl_nonblock nfd),
                Sys (DMX_SET_PES_FILTER nfd param)]))"
proof -
  assume "pid (pids d k) = 0"
  then have "dvb_add_pid_loop os d 0 0 = (0, d, [])"
    using assms(2,3) by (intro add_pid_loop_hit[of k]) simp_all
  with assms(1) show "dvb_add_pid os d 0 = (0, d, [])"
    by (simp add: dvb_add_pid_def)
next
  assume s1: "pid (pids d k) \<noteq> 0" and s2: "fd (pids d k) = - 1"
    and n: "nfd = sys_ret os (Openat (dir d) ''demux'' (dev_id d) O_RDONLY)"
    and prm: "param = \<lparr>pes_pid = 0, pes_input = DMX_IN_FRONTEND, pes_output = DMX_OUT_TS_TAP,
                    pes_type = DMX_PES_OTHER, pes_flags = DMX_IMMEDIATE_START\<rparr>"
  have "dvb_add_pid os d 0 = dvb_add_pid_loop os d 0 0"
    using assms(1) by (simp add: dvb_add_pid_def)
  also have "\<dots> = dvb_add_pid_loop os d 0 k"
    using assms(2,3) by (intro add_pid_loop_skip) simp_all
  also note dvb_add_pid_loop_free[OF assms(2) s1 s2, of os, unfolded Let_def, folded n, folded prm]
  finally show "dvb_add_pid os d 0 =
           (if nfd = - 1 then
              (- 1, d, [Sys (Openat (dir d) ''demux'' (dev_id d) O_RDONLY),
                        Msg_Err (Cannot_add_PID 0)])
            else if sys_ret os (DMX_SET_PES_FILTER nfd param) < 0 then
              (- 1, d, [Sys (Openat (dir d) ''demux'' (dev_id d) O_RDONLY),
                        Sys (Fcntl_nonblock nfd), Sys (DMX_SET_PES_FILTER nfd param),
                        Sys (Close nfd), Msg_Err (Cannot_add_PID 0)])
            else
              (0, d\<lparr>pids := (pids d)(k := \<lparr>fd = nfd, pid = 0\<rparr>)\<rparr>,
               [Sys (Openat (dir d) ''demux'' (dev_id d) O_RDONLY), Sys (Fcntl_nonblock nfd),
                Sys (DMX_SET_PES_FILTER nfd param)]))" .
qed

lemma add_pid_zero_converse:
  assumes b: "\<not> budget d" and r: "dvb_add_pid os d 0 = (0, d', ev)"
    and n: "opens ev = 0 \<or> d' = d"
  shows "d' = d \<and> ev = []
     \<and> (\<exists>k<MAX_PIDS. pid (pids d k) = 0 \<and> (\<forall>j<k. pid (pids d j) \<noteq> 0 \<and> fd (pids d j) \<noteq> - 1))"
proof -
  from b r have l: "dvb_add_pid_loop os d 0 0 = (0, d', ev)"
    by (simp add: dvb_add_pid_def)
  from add_pid_loop_success[OF l] obtain k where
    k: "k < MAX_PIDS"
       "\<forall>j. 0 \<le> j \<and> j < k \<longrightarrow> pid (pids d j) \<noteq> 0 \<and> fd (pids d j) \<noteq> - 1"
       "(pid (pids d k) = 0 \<and> d' = d \<and> ev = [])
        \<or> (pid (pids d k) \<noteq> 0 \<and> fd (pids d k) = - 1
           \<and> (\<exists>nfd. nfd \<noteq> - 1 \<and> d' = d\<lparr>pids := (pids d)(k := \<lparr>fd = nfd, pid = 0\<rparr>)\<rparr>))"
    by (elim exE conjE)
  have pre: "\<forall>j<k. pid (pids d j) \<noteq> 0 \<and> fd (pids d j) \<noteq> - 1" using k(2) by simp
  from k(3) show ?thesis
  proof
    assume h: "pid (pids d k) = 0 \<and> d' = d \<and> ev = []"
    have "\<exists>k<MAX_PIDS. pid (pids d k) = 0 \<and> (\<forall>j<k. pid (pids d j) \<noteq> 0 \<and> fd (pids d j) \<noteq> - 1)"
      by (rule exI[of _ k]) (use h k(1) pre in simp)
    with h show ?thesis by simp
  next
    assume f: "pid (pids d k) \<noteq> 0 \<and> fd (pids d k) = - 1
           \<and> (\<exists>nfd. nfd \<noteq> - 1 \<and> d' = d\<lparr>pids := (pids d)(k := \<lparr>fd = nfd, pid = 0\<rparr>)\<rparr>)"
    then have s: "pid (pids d k) \<noteq> 0" "fd (pids d k) = - 1" by simp_all
    have "dvb_add_pid_loop os d 0 0 = dvb_add_pid_loop os d 0 k"
      using k(1,2) by (intro add_pid_loop_skip) simp_all
    with l have "dvb_add_pid_loop os d 0 k = (0, d', ev)" by simp
    from add_pid_loop_free_opens[OF k(1) s this] have o: "opens ev = 1" "pid (pids d' k) = 0"
      by simp_all
    from n have False
    proof
      assume "opens ev = 0" with o(1) show False by simp
    next
      assume "d' = d" with o(2) s(1) show False by simp
    qed
    then show ?thesis ..
  qed
qed

text \<open>
  C4 (amended): in fallback mode PID 0 is handled like every other PID. \<open>dvb_add_pid\<close>
  with PID 0 returns 0 without a system call and without a change of the session when, and
  only when, the scan meets a slot that holds PID 0 before it meets a free slot. When it
  meets a free slot first, it opens a descriptor: if the node opens and the filter is
  accepted it returns 0 and records PID 0 with the descriptor in that slot, and if either
  fails it returns \<open>-1\<close> and leaves the session as it is. When every slot is in use for
  another PID it returns \<open>-1\<close> with \<open>EMFILE\<close>, without a system call.
\<close>

theorem dvb_add_pid_zero:
  assumes "\<not> budget d"
  shows
   "(k < MAX_PIDS \<and> (\<forall>j<k. pid (pids d j) \<noteq> 0 \<and> fd (pids d j) \<noteq> - 1) \<and> pid (pids d k) = 0
       \<longrightarrow> dvb_add_pid os d 0 = (0, d, []))
    \<and> (k < MAX_PIDS \<and> (\<forall>j<k. pid (pids d j) \<noteq> 0 \<and> fd (pids d j) \<noteq> - 1)
        \<and> pid (pids d k) \<noteq> 0 \<and> fd (pids d k) = - 1
        \<and> nfd = sys_ret os (Openat (dir d) ''demux'' (dev_id d) O_RDONLY)
        \<and> param = \<lparr>pes_pid = 0, pes_input = DMX_IN_FRONTEND, pes_output = DMX_OUT_TS_TAP,
                    pes_type = DMX_PES_OTHER, pes_flags = DMX_IMMEDIATE_START\<rparr>
       \<longrightarrow> dvb_add_pid os d 0 =
           (if nfd = - 1 then
              (- 1, d, [Sys (Openat (dir d) ''demux'' (dev_id d) O_RDONLY),
                        Msg_Err (Cannot_add_PID 0)])
            else if sys_ret os (DMX_SET_PES_FILTER nfd param) < 0 then
              (- 1, d, [Sys (Openat (dir d) ''demux'' (dev_id d) O_RDONLY),
                        Sys (Fcntl_nonblock nfd), Sys (DMX_SET_PES_FILTER nfd param),
                        Sys (Close nfd), Msg_Err (Cannot_add_PID 0)])
            else
              (0, d\<lparr>pids := (pids d)(k := \<lparr>fd = nfd, pid = 0\<rparr>)\<rparr>,
               [Sys (Openat (dir d) ''demux'' (dev_id d) O_RDONLY), Sys (Fcntl_nonblock nfd),
                Sys (DMX_SET_PES_FILTER nfd param)])))
    \<and> ((\<forall>j<MAX_PIDS. pid (pids d j) \<noteq> 0 \<and> fd (pids d j) \<noteq> - 1)
       \<longrightarrow> dvb_add_pid os d 0 = (- 1, d, [Set_errno EMFILE, Msg_Err (Cannot_add_PID 0)]))
    \<and> (dvb_add_pid os d 0 = (0, d', ev) \<and> (opens ev = 0 \<or> d' = d)
       \<longrightarrow> d' = d \<and> ev = []
           \<and> (\<exists>k'<MAX_PIDS. pid (pids d k') = 0
                 \<and> (\<forall>j<k'. pid (pids d j) \<noteq> 0 \<and> fd (pids d j) \<noteq> - 1)))"
proof (intro conjI impI)
  assume "k < MAX_PIDS \<and> (\<forall>j<k. pid (pids d j) \<noteq> 0 \<and> fd (pids d j) \<noteq> - 1) \<and> pid (pids d k) = 0"
  then have "k < MAX_PIDS" "\<forall>j. j < k \<longrightarrow> pid (pids d j) \<noteq> 0 \<and> fd (pids d j) \<noteq> - 1"
    "pid (pids d k) = 0" by blast+
  then show "dvb_add_pid os d 0 = (0, d, [])"
    by (rule add_pid_zero_scan(1)[OF assms])
next
  assume a: "k < MAX_PIDS \<and> (\<forall>j<k. pid (pids d j) \<noteq> 0 \<and> fd (pids d j) \<noteq> - 1)
        \<and> pid (pids d k) \<noteq> 0 \<and> fd (pids d k) = - 1
        \<and> nfd = sys_ret os (Openat (dir d) ''demux'' (dev_id d) O_RDONLY)
        \<and> param = \<lparr>pes_pid = 0, pes_input = DMX_IN_FRONTEND, pes_output = DMX_OUT_TS_TAP,
                    pes_type = DMX_PES_OTHER, pes_flags = DMX_IMMEDIATE_START\<rparr>"
  then have "k < MAX_PIDS" "\<forall>j. j < k \<longrightarrow> pid (pids d j) \<noteq> 0 \<and> fd (pids d j) \<noteq> - 1"
    "pid (pids d k) \<noteq> 0" "fd (pids d k) = - 1"
    "nfd = sys_ret os (Openat (dir d) ''demux'' (dev_id d) O_RDONLY)"
    "param = \<lparr>pes_pid = 0, pes_input = DMX_IN_FRONTEND, pes_output = DMX_OUT_TS_TAP,
                    pes_type = DMX_PES_OTHER, pes_flags = DMX_IMMEDIATE_START\<rparr>"
    by blast+
  then show "dvb_add_pid os d 0 =
           (if nfd = - 1 then
              (- 1, d, [Sys (Openat (dir d) ''demux'' (dev_id d) O_RDONLY),
                        Msg_Err (Cannot_add_PID 0)])
            else if sys_ret os (DMX_SET_PES_FILTER nfd param) < 0 then
              (- 1, d, [Sys (Openat (dir d) ''demux'' (dev_id d) O_RDONLY),
                        Sys (Fcntl_nonblock nfd), Sys (DMX_SET_PES_FILTER nfd param),
                        Sys (Close nfd), Msg_Err (Cannot_add_PID 0)])
            else
              (0, d\<lparr>pids := (pids d)(k := \<lparr>fd = nfd, pid = 0\<rparr>)\<rparr>,
               [Sys (Openat (dir d) ''demux'' (dev_id d) O_RDONLY), Sys (Fcntl_nonblock nfd),
                Sys (DMX_SET_PES_FILTER nfd param)]))"
    by (rule add_pid_zero_scan(2)[OF assms])
next
  assume "\<forall>j<MAX_PIDS. pid (pids d j) \<noteq> 0 \<and> fd (pids d j) \<noteq> - 1"
  then have "dvb_add_pid_loop os d 0 0 = (- 1, d, [Set_errno EMFILE, Msg_Err (Cannot_add_PID 0)])"
    by (intro add_pid_loop_full) simp_all
  with assms show "dvb_add_pid os d 0 = (- 1, d, [Set_errno EMFILE, Msg_Err (Cannot_add_PID 0)])"
    by (simp add: dvb_add_pid_def)
next
  assume "dvb_add_pid os d 0 = (0, d', ev) \<and> (opens ev = 0 \<or> d' = d)"
  then have r: "dvb_add_pid os d 0 = (0, d', ev)" and n: "opens ev = 0 \<or> d' = d" by blast+
  note c = add_pid_zero_converse[OF assms r n]
  from c show "d' = d" by (rule conjunct1)
  from c show "ev = []" by (rule conjunct2[THEN conjunct1])
  from c show "\<exists>k'<MAX_PIDS. pid (pids d k') = 0
                 \<and> (\<forall>j<k'. pid (pids d j) \<noteq> 0 \<and> fd (pids d j) \<noteq> - 1)"
    by (rule conjunct2[THEN conjunct2])
qed

theorem dvb_add_pid_zero_witness:
  "dvb_add_pid example_kernel example_device_pat 0 = (0, example_device_pat, [])
   \<and> dvb_add_pid example_kernel example_device 0
       = (0, example_device\<lparr>pids := (pids example_device)(0 := \<lparr>fd = 8, pid = 0\<rparr>)\<rparr>,
          [Sys (Openat 4 ''demux'' 0 O_RDONLY), Sys (Fcntl_nonblock 8),
           Sys (DMX_SET_PES_FILTER 8 \<lparr>pes_pid = 0, pes_input = DMX_IN_FRONTEND,
                  pes_output = DMX_OUT_TS_TAP, pes_type = DMX_PES_OTHER,
                  pes_flags = DMX_IMMEDIATE_START\<rparr>)])
   \<and> dvb_add_pid failing_kernel example_device 0
       = (- 1, example_device, [Sys (Openat 4 ''demux'' 0 O_RDONLY), Msg_Err (Cannot_add_PID 0)])
   \<and> dvb_add_pid example_kernel example_device_full 0
       = (- 1, example_device_full, [Set_errno EMFILE, Msg_Err (Cannot_add_PID 0)])
   \<and> (\<exists>k'. k' < MAX_PIDS \<and> pid (pids example_device_pat k') = 0)"
proof -
  have b: "\<not> budget example_device" "\<not> budget example_device_pat" "\<not> budget example_device_full"
    by (simp_all add: example_device_simps example_device_pat_def example_device_full_def)
  have i: "0 < MAX_PIDS" by (simp add: MAX_PIDS_def)
  have s: "pid (pids example_device 0) \<noteq> 0" "fd (pids example_device 0) = - 1"
    "pid (pids example_device_pat 0) = 0"
    "dir example_device = 4" "dev_id example_device = 0"
    by (simp_all add: example_device_simps free_slot_def example_device_pat_def)
  have f: "\<forall>j<MAX_PIDS. pid (pids example_device_full j) \<noteq> 0 \<and> fd (pids example_device_full j) \<noteq> - 1"
    by (simp add: example_device_full_def)
  have k: "sys_ret example_kernel (Openat 4 ''demux'' 0 O_RDONLY) = 8"
    "\<not> sys_ret example_kernel
         (DMX_SET_PES_FILTER 8 \<lparr>pes_pid = 0, pes_input = DMX_IN_FRONTEND,
            pes_output = DMX_OUT_TS_TAP, pes_type = DMX_PES_OTHER,
            pes_flags = DMX_IMMEDIATE_START\<rparr>) < 0"
    "sys_ret failing_kernel (Openat 4 ''demux'' 0 O_RDONLY) = - 1"
    by (simp_all add: example_kernel_def failing_kernel_def)
  note t1 = dvb_add_pid_zero[OF b(2), where k = 0 and os = example_kernel, THEN conjunct1]
  note t2 = dvb_add_pid_zero[OF b(1), where k = 0 and os = example_kernel and nfd = 8 and param =
        "\<lparr>pes_pid = 0, pes_input = DMX_IN_FRONTEND,
            pes_output = DMX_OUT_TS_TAP, pes_type = DMX_PES_OTHER,
            pes_flags = DMX_IMMEDIATE_START\<rparr>", THEN conjunct2, THEN conjunct1]
  note t3 = dvb_add_pid_zero[OF b(1), where k = 0 and os = failing_kernel and nfd = "- 1" and param =
        "\<lparr>pes_pid = 0, pes_input = DMX_IN_FRONTEND,
            pes_output = DMX_OUT_TS_TAP, pes_type = DMX_PES_OTHER,
            pes_flags = DMX_IMMEDIATE_START\<rparr>", THEN conjunct2, THEN conjunct1]
  note t4 = dvb_add_pid_zero[OF b(3), where os = example_kernel, THEN conjunct2, THEN conjunct2,
      THEN conjunct1]
  note t5 = dvb_add_pid_zero[OF b(2), where os = example_kernel and d' = example_device_pat
      and ev = "[]", THEN conjunct2, THEN conjunct2, THEN conjunct2]
  have r1: "dvb_add_pid example_kernel example_device_pat 0 = (0, example_device_pat, [])"
    using t1 i s(3) by simp
  have r2: "dvb_add_pid example_kernel example_device 0
       = (0, example_device\<lparr>pids := (pids example_device)(0 := \<lparr>fd = 8, pid = 0\<rparr>)\<rparr>,
          [Sys (Openat 4 ''demux'' 0 O_RDONLY), Sys (Fcntl_nonblock 8),
           Sys (DMX_SET_PES_FILTER 8 \<lparr>pes_pid = 0, pes_input = DMX_IN_FRONTEND,
                  pes_output = DMX_OUT_TS_TAP, pes_type = DMX_PES_OTHER,
                  pes_flags = DMX_IMMEDIATE_START\<rparr>)])"
    using t2 i s k(1,2) by simp
  have r3: "dvb_add_pid failing_kernel example_device 0
       = (- 1, example_device, [Sys (Openat 4 ''demux'' 0 O_RDONLY), Msg_Err (Cannot_add_PID 0)])"
    using t3 i s k(3) by simp
  have r4: "dvb_add_pid example_kernel example_device_full 0
       = (- 1, example_device_full, [Set_errno EMFILE, Msg_Err (Cannot_add_PID 0)])"
    using t4 f by simp
  have r5: "\<exists>k'. k' < MAX_PIDS \<and> pid (pids example_device_pat k') = 0"
    using t5 r1 by auto
  from r1 r2 r3 r4 r5 show ?thesis by (intro conjI)
qed

theorem dvb_add_pid_zero_counterexample:
  "fst (dvb_open example_kernel example_config example_junk True) = Some example_device
   \<and> \<not> budget example_device
   \<and> dvb_add_pid example_kernel example_device 0
       = (0, example_device\<lparr>pids := (pids example_device)(0 := \<lparr>fd = 8, pid = 0\<rparr>)\<rparr>,
          [Sys (Openat 4 ''demux'' 0 O_RDONLY), Sys (Fcntl_nonblock 8),
           Sys (DMX_SET_PES_FILTER 8 \<lparr>pes_pid = 0, pes_input = DMX_IN_FRONTEND,
                  pes_output = DMX_OUT_TS_TAP, pes_type = DMX_PES_OTHER,
                  pes_flags = DMX_IMMEDIATE_START\<rparr>)])
   \<and> opens (snd (snd (dvb_add_pid example_kernel example_device 0))) = 1
   \<and> pids (fst (snd (dvb_add_pid example_kernel example_device 0))) 0 = \<lparr>fd = 8, pid = 0\<rparr>
   \<and> pids example_device 0 = \<lparr>fd = - 1, pid = 0xFFFF\<rparr>"
proof -
  have i: "0 < MAX_PIDS" by (simp add: MAX_PIDS_def)
  have s: "pid (pids example_device 0) \<noteq> 0" "fd (pids example_device 0) = - 1"
    by (simp_all add: example_device_simps free_slot_def)
  have a: "dvb_add_pid example_kernel example_device 0
       = (0, example_device\<lparr>pids := (pids example_device)(0 := \<lparr>fd = 8, pid = 0\<rparr>)\<rparr>,
          [Sys (Openat 4 ''demux'' 0 O_RDONLY), Sys (Fcntl_nonblock 8),
           Sys (DMX_SET_PES_FILTER 8 \<lparr>pes_pid = 0, pes_input = DMX_IN_FRONTEND,
                  pes_output = DMX_OUT_TS_TAP, pes_type = DMX_PES_OTHER,
                  pes_flags = DMX_IMMEDIATE_START\<rparr>)])"
    unfolding dvb_add_pid_def dvb_add_pid_loop_free[OF i s, of example_kernel]
    by (simp add: example_device_simps Let_def example_kernel_def)
  show ?thesis
    unfolding a using example_open by (simp add: example_device_simps free_slot_def)
qed

text \<open>
  C10: a session that \<open>dvb_open\<close> returns in fallback mode has \<open>-1\<close> as descriptor and
  \<open>0xFFFF\<close> as PID in its slots, so \<open>dvb_add_pid\<close> with PID \<open>0xFFFF\<close> finds its PID in
  slot 0: it returns 0, makes no system call and leaves the session as it is.
\<close>

theorem dvb_add_pid_0xFFFF_fresh:
  assumes "dvb_open os cfg junk tune = (Some d, ev)" "\<not> var_dvb_budget_mode cfg"
  shows "pid (pids d 0) = 0xFFFF \<and> fd (pids d 0) = - 1
         \<and> dvb_add_pid os' d 0xFFFF = (0, d, [])
         \<and> opens (snd (snd (dvb_add_pid os' d 0xFFFF))) = 0"
proof -
  from dvb_open_fallback[OF assms] have b: "\<not> budget d" and s: "pids d 0 = free_slot"
    by (simp_all add: MAX_PIDS_def)
  have p: "pid (pids d 0) = 0xFFFF" "fd (pids d 0) = - 1"
    by (simp_all add: s free_slot_def)
  have "dvb_add_pid_loop os' d 0xFFFF 0 = (0, d, [])"
    by (rule add_pid_loop_hit[of 0]) (simp_all add: p MAX_PIDS_def)
  with b p show ?thesis by (simp add: dvb_add_pid_def opens_def)
qed

theorem dvb_add_pid_0xFFFF_fresh_witness:
  "dvb_open example_kernel example_config example_junk True
     = (Some example_device, snd (dvb_open example_kernel example_config example_junk True))
   \<and> \<not> var_dvb_budget_mode example_config
   \<and> dvb_add_pid example_kernel example_device 0xFFFF = (0, example_device, [])"
proof -
  have a: "dvb_open example_kernel example_config example_junk True
     = (Some example_device, snd (dvb_open example_kernel example_config example_junk True))"
    using example_open by (simp add: prod_eq_iff)
  have b: "\<not> var_dvb_budget_mode example_config" by (simp add: example_config_def)
  from dvb_add_pid_0xFFFF_fresh[OF a b, of example_kernel] a b show ?thesis by simp
qed

end
